theory Spec2Isabelle
  imports Complex_Main
begin

chapter \<open>FlexCell NX: ingestion, validation, migration and batching\<close>

text \<open>
  A shallow embedding of the TypeScript sources \<^verbatim>\<open>utils.ts\<close>, \<^verbatim>\<open>pdfService.ts\<close>,
  \<^verbatim>\<open>types.ts\<close>, \<^verbatim>\<open>emailService.ts\<close> and \<^verbatim>\<open>App.tsx\<close>.

  Conventions of the embedding.
  \<^item> A JavaScript string is a \<open>string\<close> holding its UTF-8 bytes, so \<open>length\<close> is
    \<^verbatim>\<open>Buffer.byteLength(s, 'utf8')\<close>. Letters outside ASCII are written byte by byte.
    The regular expressions of the source only name ASCII characters; bytes above 127
    are neither word characters, digits nor white space, and \<^verbatim>\<open>toLowerCase\<close> leaves
    them alone.
  \<^item> A JavaScript number is a \<open>number\<close>: NaN, the two infinities, or a finite value
    given by the rational it denotes. Arithmetic on finite values is exact; the rounding
    of IEEE-754 doubles and overflow to infinity are outside the model, and so is the
    sign of zero.
  \<^item> What the runtime supplies is a parameter: the decimal rendering of a finite number
    (\<open>numStr\<close>), the base-36 rendering of a \<^verbatim>\<open>Math.random()\<close> draw, the ISO string of
    \<^verbatim>\<open>new Date()\<close>, what the PDF library returns or throws for a file and a page, what a
    callback does, and what the user answers to \<^verbatim>\<open>window.confirm\<close>.
  \<^item> A thrown exception is the left injection of a sum; \<^verbatim>\<open>try/catch\<close> is a case
    distinction on it. Console logging is not part of the state.
  \<^item> A value of type \<^verbatim>\<open>any\<close> is a \<open>jsval\<close>: \<^verbatim>\<open>undefined\<close> or what \<^verbatim>\<open>JSON.parse\<close>
    returns (null, a boolean, a number, a string, an array, an object with its
    properties in a list, the first binding of a key being the one that is read).
\<close>

section \<open>JavaScript numbers and values\<close>

datatype number = NaN | PosInf | NegInf | Fin rat

definition isNaN :: "number \<Rightarrow> bool" where
  "isNaN n = (n = NaN)"

definition isNeg :: "number \<Rightarrow> bool" where
  "isNeg n = (case n of NegInf \<Rightarrow> True | Fin x \<Rightarrow> x < 0 | _ \<Rightarrow> False)"

fun nless :: "number \<Rightarrow> number \<Rightarrow> bool" where
  "nless NaN _ = False"
| "nless _ NaN = False"
| "nless (Fin x) (Fin y) = (x < y)"
| "nless NegInf b = (b \<noteq> NegInf)"
| "nless a PosInf = (a \<noteq> PosInf)"
| "nless _ _ = False"

definition nle :: "number \<Rightarrow> number \<Rightarrow> bool" where
  "nle a b = (nless a b \<or> (a = b \<and> a \<noteq> NaN))"

fun nadd :: "number \<Rightarrow> number \<Rightarrow> number" where
  "nadd NaN _ = NaN"
| "nadd _ NaN = NaN"
| "nadd (Fin x) (Fin y) = Fin (x + y)"
| "nadd PosInf NegInf = NaN"
| "nadd NegInf PosInf = NaN"
| "nadd (Fin x) b = b"
| "nadd a _ = a"

fun nmul :: "number \<Rightarrow> number \<Rightarrow> number" where
  "nmul NaN _ = NaN"
| "nmul _ NaN = NaN"
| "nmul (Fin x) (Fin y) = Fin (x * y)"
| "nmul a b =
     (if a = Fin 0 \<or> b = Fin 0 then NaN
      else if isNeg a = isNeg b then PosInf else NegInf)"

fun ndiv :: "number \<Rightarrow> number \<Rightarrow> number" where
  "ndiv NaN _ = NaN"
| "ndiv _ NaN = NaN"
| "ndiv (Fin x) (Fin y) =
     (if y = 0 then (if x = 0 then NaN else if 0 < x then PosInf else NegInf)
      else Fin (x / y))"
| "ndiv (Fin x) _ = Fin 0"
| "ndiv a (Fin y) = (if isNeg a = (y < 0) then PosInf else NegInf)"
| "ndiv _ _ = NaN"

fun nmax :: "number \<Rightarrow> number \<Rightarrow> number" where
  "nmax NaN _ = NaN"
| "nmax _ NaN = NaN"
| "nmax a b = (if nless a b then b else a)"

text \<open>
  \<^verbatim>\<open>parseFloat(x.toFixed(2))\<close>: \<^verbatim>\<open>toFixed\<close> takes the integer \<open>n\<close> with \<open>n / 100\<close>
  closest to the magnitude (the larger one on a tie), and \<^verbatim>\<open>parseFloat\<close> reads the
  digits back; NaN and the infinities print as their names and are read back as
  themselves. The source rounds the double it has computed, this definition the exact
  rational: the two differ where the exact value is a tie or next to one that the double
  misses (a page of 594 points gives 22.95 in the source and 22.96 here). They agree
  where every intermediate value is exact in a double, as for whole millimetres that
  are multiples of 10.
\<close>

definition toFixed2 :: "number \<Rightarrow> number" where
  "toFixed2 n =
     (case n of
        Fin x \<Rightarrow> Fin (sgn x * of_int \<lfloor>\<bar>x\<bar> * 100 + 1 / 2\<rfloor> / 100)
      | _ \<Rightarrow> n)"

datatype jsval =
    Undefined
  | Null
  | Boolean bool
  | Number number
  | String string
  | Array "jsval list"
  | Object "(string \<times> jsval) list"

text \<open>
  The exceptions the code can raise: \<^verbatim>\<open>new Error(message)\<close>, and the \<^verbatim>\<open>TypeError\<close> of
  the runtime when a value cannot be converted to a primitive (with the message V8 gives
  it). \<open>message\<close> is \<^verbatim>\<open>e.message\<close>; \<open>bindE\<close> sequences two steps, the second of which
  runs only when the first has not thrown.
\<close>

datatype exn = Error string | TypeError string

definition message :: "exn \<Rightarrow> string" where
  "message e = (case e of Error m \<Rightarrow> m | TypeError m \<Rightarrow> m)"

definition bindE :: "exn + 'a \<Rightarrow> ('a \<Rightarrow> exn + 'b) \<Rightarrow> exn + 'b" where
  "bindE m f = (case m of Inl e \<Rightarrow> Inl e | Inr x \<Rightarrow> f x)"

definition typeof :: "jsval \<Rightarrow> string" where
  "typeof v =
     (case v of
        Undefined \<Rightarrow> ''undefined''
      | Null \<Rightarrow> ''object''
      | Boolean _ \<Rightarrow> ''boolean''
      | Number _ \<Rightarrow> ''number''
      | String _ \<Rightarrow> ''string''
      | Array _ \<Rightarrow> ''object''
      | Object _ \<Rightarrow> ''object'')"

definition truthy :: "jsval \<Rightarrow> bool" where
  "truthy v =
     (case v of
        Undefined \<Rightarrow> False
      | Null \<Rightarrow> False
      | Boolean b \<Rightarrow> b
      | Number n \<Rightarrow> n \<noteq> NaN \<and> n \<noteq> Fin 0
      | String s \<Rightarrow> s \<noteq> []
      | Array _ \<Rightarrow> True
      | Object _ \<Rightarrow> True)"

text \<open>\<^verbatim>\<open>a || b\<close> on values and on numbers.\<close>

definition orElse :: "jsval \<Rightarrow> jsval \<Rightarrow> jsval" where
  "orElse a b = (if truthy a then a else b)"

definition orNum :: "number \<Rightarrow> number \<Rightarrow> number" where
  "orNum a b = (if a \<noteq> NaN \<and> a \<noteq> Fin 0 then a else b)"

text \<open>
  \<^verbatim>\<open>item.key\<close> for the keys the source reads (none is an array index or \<^verbatim>\<open>length\<close>):
  the property of an object, \<^verbatim>\<open>undefined\<close> when it is absent or the value is an array.
\<close>

definition get :: "jsval \<Rightarrow> string \<Rightarrow> jsval" where
  "get v key =
     (case v of
        Object kvs \<Rightarrow> (case map_of kvs key of Some x \<Rightarrow> x | None \<Rightarrow> Undefined)
      | _ \<Rightarrow> Undefined)"

definition numberToString :: "(rat \<Rightarrow> string) \<Rightarrow> number \<Rightarrow> string" where
  "numberToString numStr n =
     (case n of
        NaN \<Rightarrow> ''NaN''
      | PosInf \<Rightarrow> ''Infinity''
      | NegInf \<Rightarrow> ''-Infinity''
      | Fin x \<Rightarrow> numStr x)"

text \<open>
  \<^verbatim>\<open>String(v)\<close>, the conversion that \<^verbatim>\<open>parseInt\<close> and \<^verbatim>\<open>parseFloat\<close> apply to their
  argument too. An array joins the conversions of its elements with commas, null and
  undefined as empty. An object is converted by its \<^verbatim>\<open>toString\<close> method: the inherited one
  gives \<^verbatim>\<open>[object Object]\<close>; an own property \<^verbatim>\<open>toString\<close> holds a value that cannot be
  called, and then \<^verbatim>\<open>valueOf\<close> (own: not callable; inherited: returns the object itself)
  gives no primitive either, so the conversion throws a \<^verbatim>\<open>TypeError\<close>.
\<close>

fun toStr :: "(rat \<Rightarrow> string) \<Rightarrow> jsval \<Rightarrow> exn + string"
  and joinElems :: "(rat \<Rightarrow> string) \<Rightarrow> jsval list \<Rightarrow> exn + string" where
  "toStr numStr Undefined = Inr ''undefined''"
| "toStr numStr Null = Inr ''null''"
| "toStr numStr (Boolean b) = Inr (if b then ''true'' else ''false'')"
| "toStr numStr (Number n) = Inr (numberToString numStr n)"
| "toStr numStr (String s) = Inr s"
| "toStr numStr (Array vs) = joinElems numStr vs"
| "toStr numStr (Object kvs) =
     (if map_of kvs ''toString'' = None then Inr ''[object Object]''
      else Inl (TypeError ''Cannot convert object to primitive value''))"
| "joinElems numStr [] = Inr []"
| "joinElems numStr (v # vs) =
     bindE (if v = Undefined \<or> v = Null then Inr [] else toStr numStr v)
       (\<lambda>first. if vs = [] then Inr first
                else bindE (joinElems numStr vs) (\<lambda>others. Inr (first @ '','' @ others)))"

section \<open>Characters and strings\<close>

definition isDigit :: "char \<Rightarrow> bool" where
  "isDigit c = (c \<in> set ''0123456789'')"

definition isWordChar :: "char \<Rightarrow> bool" where
  "isWordChar c =
     (c \<in> set ''abcdefghijklmnopqrstuvwxyzABCDEFGHIJKLMNOPQRSTUVWXYZ0123456789_'')"

text \<open>
  The classes below are those of ASCII. The white space of the source (\<^verbatim>\<open>\s\<close>, and what
  \<^verbatim>\<open>parseInt\<close> and \<^verbatim>\<open>parseFloat\<close> skip) also holds U+00A0 and the other Unicode spaces,
  and its \<^verbatim>\<open>toLowerCase\<close> also maps letters outside ASCII (U+212A to \<^verbatim>\<open>k\<close>): names with
  such characters are outside this model.
\<close>

definition isSpace :: "char \<Rightarrow> bool" where
  "isSpace c = (c \<in> set [CHR '' '', CHR 0x09, CHR 0x0A, CHR 0x0B, CHR 0x0C, CHR 0x0D])"

definition toLowerChar :: "char \<Rightarrow> char" where
  "toLowerChar c =
     (case map_of (zip ''ABCDEFGHIJKLMNOPQRSTUVWXYZ'' ''abcdefghijklmnopqrstuvwxyz'') c of
        Some l \<Rightarrow> l
      | None \<Rightarrow> c)"

definition toLowerCase :: "string \<Rightarrow> string" where
  "toLowerCase s = map toLowerChar s"

definition endsWith :: "string \<Rightarrow> string \<Rightarrow> bool" where
  "endsWith s suffix = (length suffix \<le> length s \<and> drop (length s - length suffix) s = suffix)"

definition digitVal :: "char \<Rightarrow> nat" where
  "digitVal c = of_char c - 48"

definition digitsVal :: "string \<Rightarrow> nat" where
  "digitsVal ds = foldl (\<lambda>acc c. 10 * acc + digitVal c) 0 ds"

definition digitChar :: "nat \<Rightarrow> char" where
  "digitChar n = char_of (48 + n)"

text \<open>The decimal digits of a non-negative integer, as a template literal prints it.\<close>

fun showNat :: "nat \<Rightarrow> string" where
  "showNat n = (if n < 10 then [digitChar n] else showNat (n div 10) @ [digitChar (n mod 10)])"

declare showNat.simps [simp del]

fun join :: "string \<Rightarrow> string list \<Rightarrow> string" where
  "join sep [] = []"
| "join sep [x] = x"
| "join sep (x # y # ys) = x @ sep @ join sep (y # ys)"

section \<open>Regular expressions\<close>

text \<open>
  The fragment of JavaScript regular expressions the source uses: character classes,
  literals, \<^verbatim>\<open>\b\<close>, greedy bounded repetition of a class, greedy options, capturing
  groups, sequence and alternation. \<open>rmatch\<close> lists the ways of matching at a position
  in the order the backtracking matcher tries them; the first one is the match.
\<close>

datatype rx =
    Chr "char \<Rightarrow> bool"
  | Lit string
  | WordB
  | Rep "char \<Rightarrow> bool" nat "nat option"
  | Opt rx
  | Grp rx
  | Seq rx rx
  | Alt rx rx

type_synonym mstate = "nat \<times> string list"

definition wordBoundary :: "string \<Rightarrow> nat \<Rightarrow> bool" where
  "wordBoundary s i =
     ((0 < i \<and> i \<le> length s \<and> isWordChar (s ! (i - 1))) \<noteq>
      (i < length s \<and> isWordChar (s ! i)))"

fun rmatch :: "rx \<Rightarrow> string \<Rightarrow> mstate \<Rightarrow> mstate list" where
  "rmatch (Chr p) s (i, caps) = (if i < length s \<and> p (s ! i) then [(Suc i, caps)] else [])"
| "rmatch (Lit w) s (i, caps) =
     (if take (length w) (drop i s) = w then [(i + length w, caps)] else [])"
| "rmatch WordB s (i, caps) = (if wordBoundary s i then [(i, caps)] else [])"
| "rmatch (Rep p lo hi) s (i, caps) =
     (let n = length (takeWhile p (drop i s));
          m = (case hi of None \<Rightarrow> n | Some h \<Rightarrow> min n h)
      in map (\<lambda>k. (i + k, caps)) (rev [lo ..< Suc m]))"
| "rmatch (Opt r) s (i, caps) = rmatch r s (i, caps) @ [(i, caps)]"
| "rmatch (Grp r) s (i, caps) =
     map (\<lambda>(j, caps'). (j, caps' @ [take (j - i) (drop i s)])) (rmatch r s (i, caps))"
| "rmatch (Seq a b) s st = concat (map (rmatch b s) (rmatch a s st))"
| "rmatch (Alt a b) s st = rmatch a s st @ rmatch b s st"

fun execFrom :: "rx \<Rightarrow> string \<Rightarrow> nat list \<Rightarrow> (nat \<times> mstate) option" where
  "execFrom r s [] = None"
| "execFrom r s (i # is) =
     (case rmatch r s (i, []) of
        [] \<Rightarrow> execFrom r s is
      | m # _ \<Rightarrow> Some (i, m))"

text \<open>The leftmost start position that has a match, with the match found there.\<close>

definition exec :: "rx \<Rightarrow> string \<Rightarrow> (nat \<times> mstate) option" where
  "exec r s = execFrom r s [0 ..< Suc (length s)]"

definition test :: "rx \<Rightarrow> string \<Rightarrow> bool" where
  "test r s = (exec r s \<noteq> None)"

text \<open>\<^verbatim>\<open>s.match(r)\<close> without the global flag: the matched text, then the groups.\<close>

definition match :: "string \<Rightarrow> rx \<Rightarrow> string list option" where
  "match s r =
     (case exec r s of
        None \<Rightarrow> None
      | Some (i, (j, caps)) \<Rightarrow> Some (take (j - i) (drop i s) # caps))"

definition seqs :: "rx list \<Rightarrow> rx" where
  "seqs rs = foldr Seq rs (Lit [])"

definition alts :: "rx \<Rightarrow> rx list \<Rightarrow> rx" where
  "alts r rs = foldl Alt r rs"

section \<open>utils.ts: validation helpers\<close>

record Validation =
  valid :: bool
  error :: "string option"

text \<open>
  Both arguments are numbers by their type, so the \<^verbatim>\<open>typeof\<close> test of the source
  never fires here.
\<close>

definition validateDimensions :: "number \<Rightarrow> number \<Rightarrow> Validation" where
  "validateDimensions w h =
     (if isNaN w \<or> isNaN h
      then \<lparr>valid = False,
            error = Some (''Dimens'' @ [CHR 0xC3, CHR 0xB5] @ ''es cont'' @ [CHR 0xC3, CHR 0xAA] @
                          ''m valores inv'' @ [CHR 0xC3, CHR 0xA1] @ ''lidos'')\<rparr>
      else if nle w (Fin 0) \<or> nle h (Fin 0)
      then \<lparr>valid = False,
            error = Some (''Dimens'' @ [CHR 0xC3, CHR 0xB5] @ ''es devem ser maiores que zero'')\<rparr>
      else if nless (Fin 500) w \<or> nless (Fin 500) h
      then \<lparr>valid = False,
            error = Some (''Dimens'' @ [CHR 0xC3, CHR 0xB5] @ ''es muito grandes (m'' @
                          [CHR 0xC3, CHR 0xA1] @ ''ximo 500cm)'')\<rparr>
      else \<lparr>valid = True, error = None\<rparr>)"

text \<open>
  \<^verbatim>\<open>parseInt(v, 10)\<close> and \<^verbatim>\<open>parseFloat(v)\<close> convert their argument to a string first:
  leading white space, a sign, then the longest prefix that is a numeral.
\<close>

definition splitSign :: "string \<Rightarrow> rat \<times> string" where
  "splitSign t =
     (case t of
        c # r \<Rightarrow> (if c = CHR ''-'' then (- 1, r) else if c = CHR ''+'' then (1, r) else (1, t))
      | [] \<Rightarrow> (1, t))"

definition parseIntStr :: "string \<Rightarrow> number" where
  "parseIntStr s =
     (let (sign, u) = splitSign (dropWhile isSpace s);
          ds = takeWhile isDigit u
      in if ds = [] then NaN else Fin (sign * of_nat (digitsVal ds)))"

definition exponentOf :: "string \<Rightarrow> int" where
  "exponentOf r =
     (case r of
        c # r' \<Rightarrow>
          (if c = CHR ''e'' \<or> c = CHR ''E''
           then (let (sign, u) = splitSign r'; ds = takeWhile isDigit u
                 in if ds = [] then 0
                    else if sign < 0 then - int (digitsVal ds) else int (digitsVal ds))
           else 0)
      | [] \<Rightarrow> 0)"

definition scale10 :: "rat \<Rightarrow> int \<Rightarrow> rat" where
  "scale10 x e = (if 0 \<le> e then x * 10 ^ nat e else x / 10 ^ nat (- e))"

definition parseFloatStr :: "string \<Rightarrow> number" where
  "parseFloatStr s =
     (let (sign, u) = splitSign (dropWhile isSpace s)
      in if take 8 u = ''Infinity'' then (if sign < 0 then NegInf else PosInf)
         else
           let ip = takeWhile isDigit u;
               r1 = dropWhile isDigit u;
               fp = (case r1 of c # r \<Rightarrow> (if c = CHR ''.'' then takeWhile isDigit r else [])
                              | [] \<Rightarrow> []);
               r2 = (case r1 of c # r \<Rightarrow> (if c = CHR ''.'' then dropWhile isDigit r else r1)
                              | [] \<Rightarrow> [])
           in if ip = [] \<and> fp = [] then NaN
              else Fin (sign * scale10 (of_nat (digitsVal (ip @ fp)) / 10 ^ length fp)
                                       (exponentOf r2)))"

definition parseInt :: "(rat \<Rightarrow> string) \<Rightarrow> jsval \<Rightarrow> exn + number" where
  "parseInt numStr v = bindE (toStr numStr v) (\<lambda>s. Inr (parseIntStr s))"

definition parseFloat :: "(rat \<Rightarrow> string) \<Rightarrow> jsval \<Rightarrow> exn + number" where
  "parseFloat numStr v = bindE (toStr numStr v) (\<lambda>s. Inr (parseFloatStr s))"

definition validateGames :: "(rat \<Rightarrow> string) \<Rightarrow> jsval \<Rightarrow> exn + number" where
  "validateGames numStr games =
     bindE (parseInt numStr games)
       (\<lambda>parsed. Inr (nmax (Fin 1) (if isNaN parsed then Fin 1 else parsed)))"

section \<open>utils.ts: colour detection and filename parsing\<close>

record ColorDetection =
  cd_colors :: "string list"
  gameCount :: nat

record pattern =
  regex :: rx
  name :: string
  p_games :: nat

definition patterns :: "pattern list" where
  "patterns =
    [\<lparr>regex = seqs [WordB, Lit ''cmyk'', WordB], name = ''CMYK'', p_games = 4\<rparr>,
     \<lparr>regex = seqs [WordB, Grp (Rep isDigit 3 (Some 5)), Lit ''c'', WordB],
        name = ''PANTONE'', p_games = 1\<rparr>,
     \<lparr>regex = seqs [WordB, Lit ''gray'', Chr (\<lambda>c. c \<in> set ''1234''), WordB],
        name = ''GRAY'', p_games = 1\<rparr>,
     \<lparr>regex = seqs [WordB, Grp (alts (Lit ''black'') [Lit ''preto'', Lit ''pb'', Lit ''p&b'']),
                     WordB],
        name = ''BLACK'', p_games = 1\<rparr>,
     \<lparr>regex = seqs [WordB, Grp (alts (Lit ''white'') [Lit ''branco'']), WordB],
        name = ''WHITE'', p_games = 1\<rparr>,
     \<lparr>regex = seqs [WordB, Lit ''red'', WordB], name = ''RED'', p_games = 1\<rparr>,
     \<lparr>regex = seqs [WordB, Lit ''blue'', WordB], name = ''BLUE'', p_games = 1\<rparr>]"

text \<open>The \<^verbatim>\<open>for ... of patterns\<close> loop, with \<^verbatim>\<open>detected\<close> and \<^verbatim>\<open>totalGames\<close> as its state.\<close>

fun detectLoop :: "string \<Rightarrow> pattern list \<Rightarrow> string list \<times> nat \<Rightarrow> string list \<times> nat" where
  "detectLoop filenameLower [] acc = acc"
| "detectLoop filenameLower (p # ps) (detected, totalGames) =
     (if test (regex p) filenameLower
      then detectLoop filenameLower ps (detected @ [name p], totalGames + p_games p)
      else detectLoop filenameLower ps (detected, totalGames))"

definition detectColors :: "string \<Rightarrow> ColorDetection" where
  "detectColors filename =
     (if filename = [] then \<lparr>cd_colors = [], gameCount = 1\<rparr>
      else
        let filenameLower = toLowerCase filename;
            (detected, totalGames) = detectLoop filenameLower patterns ([], 0)
        in \<lparr>cd_colors = (if 0 < length detected then detected else []),
            gameCount = max 1 totalGames\<rparr>)"

definition extractOS :: "string \<Rightarrow> string" where
  "extractOS filename =
     (if filename = [] then []
      else case match filename (seqs [WordB, Grp (Rep isDigit 4 None), WordB]) of
             None \<Rightarrow> []
           | Some osMatch \<Rightarrow> osMatch ! 1)"

record Dimensions =
  dim_width :: number
  dim_height :: number

text \<open>
  \<^verbatim>\<open>/(\d+(?:\.\d+)?)\s*[xX]\s*(\d+(?:\.\d+)?)\s*mm/i\<close>: the flag \<^verbatim>\<open>i\<close> lets each
  \<^verbatim>\<open>m\<close> be of either case.
\<close>

definition sizeRegex :: rx where
  "sizeRegex =
     (let num = Grp (Seq (Rep isDigit 1 None) (Opt (Seq (Lit ''.'') (Rep isDigit 1 None))));
          m = Chr (\<lambda>c. c \<in> set ''mM'')
      in seqs [num, Rep isSpace 0 None, Chr (\<lambda>c. c \<in> set ''xX''), Rep isSpace 0 None,
               num, Rep isSpace 0 None, m, m])"

definition extractDimensions :: "string \<Rightarrow> Dimensions option" where
  "extractDimensions filename =
     (if filename = [] then None
      else case match filename sizeRegex of
             None \<Rightarrow> None
           | Some sizeMatch \<Rightarrow>
               let widthMm = parseFloatStr (sizeMatch ! 1);
                   heightMm = parseFloatStr (sizeMatch ! 2);
                   widthCm = toFixed2 (ndiv widthMm (Fin 10));
                   heightCm = toFixed2 (ndiv heightMm (Fin 10));
                   validation = validateDimensions widthCm heightCm
               in if \<not> valid validation then None
                  else Some \<lparr>dim_width = widthCm, dim_height = heightCm\<rparr>)"

definition calculatePdfDimensions :: "number \<Rightarrow> number \<Rightarrow> number \<Rightarrow> Dimensions" where
  "calculatePdfDimensions pageWidth pageHeight marginCm =
     (let widthCm = ndiv (nmul pageWidth (Fin (254 / 100))) (Fin 72);
          heightCm = ndiv (nmul pageHeight (Fin (254 / 100))) (Fin 72);
          finalWidth = toFixed2 (nadd widthCm (nmul marginCm (Fin 2)));
          finalHeight = toFixed2 (nadd heightCm (nmul marginCm (Fin 2)))
      in \<lparr>dim_width = finalWidth, dim_height = finalHeight\<rparr>)"

section \<open>types.ts\<close>

text \<open>
  An Order Item. The fields \<^verbatim>\<open>id\<close>, \<^verbatim>\<open>jobType\<close> and \<^verbatim>\<open>date\<close> hold whatever value
  the program stored: the type assertions of the source are not checked when it runs.
  The type of numbers is a parameter of the record.
\<close>

record 'n OrderItem =
  item_id :: jsval
  os :: string
  clientDescription :: string
  colors :: string
  jobType :: jsval
  date :: jsval
  width :: 'n
  height :: 'n
  games :: 'n
  pricePerCm2 :: 'n
  observations :: string

record 'n CalculatedItem = "'n OrderItem" +
  cm2Total :: 'n
  totalValue :: 'n

record 'n HistoryBatch =
  batch_id :: string
  timestamp :: string
  batch_items :: "'n OrderItem list"
  stockSnapshot :: 'n
  month :: nat
  year :: int

section \<open>utils.ts: data migration\<close>

definition DEFAULT_RATE :: number where
  "DEFAULT_RATE = Fin (798 / 10000)"

text \<open>
  \<^verbatim>\<open>Math.random().toString(36).substr(2, 9)\<close>, from the base-36 rendering of the draw,
  and \<^verbatim>\<open>new Date().toISOString().split('T')[0]\<close>, from the ISO string of the clock.
\<close>

definition randomId :: "string \<Rightarrow> string" where
  "randomId random36 = take 9 (drop 2 random36)"

definition isoDate :: "string \<Rightarrow> string" where
  "isoDate nowISO = takeWhile (\<lambda>c. c \<noteq> CHR ''T'') nowISO"

text \<open>
  \<open>random36\<close> and \<open>nowISO\<close> are what \<^verbatim>\<open>Math.random().toString(36)\<close> and
  \<^verbatim>\<open>new Date().toISOString()\<close> return if the function calls them. The fields of the
  object literal are evaluated in their order; the first conversion that throws ends the
  call.
\<close>

definition migrateOrderItem ::
  "(rat \<Rightarrow> string) \<Rightarrow> string \<Rightarrow> string \<Rightarrow> jsval \<Rightarrow> exn + number OrderItem" where
  "migrateOrderItem numStr random36 nowISO item =
     (if \<not> truthy item \<or> typeof item \<noteq> ''object'' then Inl (Error ''Invalid order item'')
      else
        bindE (toStr numStr (orElse (get item ''os'') (String []))) (\<lambda>osText.
        bindE (toStr numStr (orElse (get item ''clientDescription'') (String []))) (\<lambda>clientText.
        bindE (toStr numStr (orElse (get item ''colors'') (String []))) (\<lambda>colorsText.
        bindE (parseFloat numStr (get item ''width'')) (\<lambda>parsedWidth.
        bindE (parseFloat numStr (get item ''height'')) (\<lambda>parsedHeight.
        bindE (validateGames numStr (get item ''games'')) (\<lambda>validGames.
        bindE (parseFloat numStr (get item ''pricePerCm2'')) (\<lambda>parsedPrice.
        bindE (toStr numStr (orElse (get item ''observations'') (String []))) (\<lambda>obsText.
          Inr
            \<lparr>item_id = orElse (get item ''id'') (String (randomId random36)),
             os = osText,
             clientDescription = clientText,
             colors = colorsText,
             jobType = orElse (get item ''jobType'') (String ''Novo''),
             date = orElse (get item ''date'') (String (isoDate nowISO)),
             width = orNum parsedWidth (Fin 0),
             height = orNum parsedHeight (Fin 0),
             games = validGames,
             pricePerCm2 = orNum parsedPrice (Fin (798 / 10000)),
             observations = obsText\<rparr>)))))))))"

text \<open>
  How many times a call of \<open>migrateOrderItem\<close> draws a random number and reads the clock:
  the identifier is evaluated first, the date after the three texts before it.
\<close>

definition migrateCalls :: "(rat \<Rightarrow> string) \<Rightarrow> jsval \<Rightarrow> nat \<times> nat" where
  "migrateCalls numStr item =
     (if \<not> truthy item \<or> typeof item \<noteq> ''object'' then (0, 0)
      else
        (if truthy (get item ''id'') then 0 else 1,
         if isl (toStr numStr (orElse (get item ''os'') (String [])))
            \<or> isl (toStr numStr (orElse (get item ''clientDescription'') (String [])))
            \<or> isl (toStr numStr (orElse (get item ''colors'') (String [])))
            \<or> truthy (get item ''date'')
         then 0 else 1))"

section \<open>pdfService.ts: importing PDF files\<close>

record PdfImportResult =
  success :: bool
  itemsCreated :: nat
  filesProcessed :: nat
  filesFailed :: nat
  errors :: "string list"
  result_items :: "number OrderItem list"

text \<open>
  What the collaborators give for a file: its name, and either the message of the
  exception that reading its bytes or opening the document throws, or its pages; a page
  is the message of the exception \<^verbatim>\<open>getPage\<close> throws, or the width and height of its
  viewport in points.
\<close>

type_synonym page = "string + number \<times> number"

record source_file =
  file_name :: string
  file_content :: "string + page list"

text \<open>
  The runtime of one import: the rendering of finite numbers, and the \<open>k\<close>-th result of
  \<^verbatim>\<open>Math.random().toString(36)\<close> and of \<^verbatim>\<open>new Date().toISOString()\<close>. The state of
  the loops carries how many of each the run has consumed.
\<close>

record runtime =
  rt_numStr :: "rat \<Rightarrow> string"
  rt_random36 :: "nat \<Rightarrow> string"
  rt_nowISO :: "nat \<Rightarrow> string"

type_synonym import_state = "PdfImportResult \<times> nat \<times> nat"

definition pageLabel :: "string \<Rightarrow> nat \<Rightarrow> string" where
  "pageLabel fileName pageNum =
     fileName @ '' (p'' @ [CHR 0xC3, CHR 0xA1] @ ''gina '' @ showNat pageNum @ ''): ''"

definition pushError :: "string \<Rightarrow> PdfImportResult \<Rightarrow> PdfImportResult" where
  "pushError msg result = result\<lparr>errors := errors result @ [msg]\<rparr>"

text \<open>The body of the loop over the pages, with its \<^verbatim>\<open>try/catch\<close>.\<close>

definition processPage ::
  "runtime \<Rightarrow> string \<Rightarrow> string \<Rightarrow> string \<Rightarrow> Dimensions option \<Rightarrow> ColorDetection \<Rightarrow> nat \<Rightarrow>
   import_state \<Rightarrow> nat \<times> page \<Rightarrow> import_state" where
  "processPage rt fileName fileNameBase fileOS dimsFromFilename colorDetection numPages st np =
     (case (st, np) of ((result, rc, dc), (pageNum, page)) \<Rightarrow>
       (case page of
          Inl errorMsg \<Rightarrow> (pushError (pageLabel fileName pageNum @ errorMsg) result, rc, dc)
        | Inr (viewportWidth, viewportHeight) \<Rightarrow>
            let (finalWidth, finalHeight, obs) =
                  (case dimsFromFilename of
                     Some d \<Rightarrow>
                       (dim_width d, dim_height d,
                        ''Dimens'' @ [CHR 0xC3, CHR 0xB5] @ ''es extra'' @ [CHR 0xC3, CHR 0xAD] @
                        ''das do nome do arquivo'')
                   | None \<Rightarrow>
                       let dimResult = calculatePdfDimensions viewportWidth viewportHeight (Fin 1)
                       in (dim_width dimResult, dim_height dimResult,
                           ''Importado de PDF (+1cm margem/lado)''));
                dimValidation = validateDimensions finalWidth finalHeight
            in if \<not> valid dimValidation
               then (pushError (pageLabel fileName pageNum @
                                (case error dimValidation of Some e \<Rightarrow> e | None \<Rightarrow> ''undefined''))
                       result, rc, dc)
               else
                 let description =
                       fileNameBase @
                       (if 1 < numPages
                        then '' - P'' @ [CHR 0xC3, CHR 0xA1] @ ''g '' @ showNat pageNum else []);
                     newId = randomId (rt_random36 rt rc);
                     newDate = isoDate (rt_nowISO rt dc);
                     newItem = Object
                       [(''id'', String newId),
                        (''os'', String fileOS),
                        (''clientDescription'', String description),
                        (''colors'', String (join '', '' (cd_colors colorDetection))),
                        (''jobType'', String ''Novo''),
                        (''date'', String newDate),
                        (''width'', Number finalWidth),
                        (''height'', Number finalHeight),
                        (''games'', Number (Fin (of_nat (gameCount colorDetection)))),
                        (''pricePerCm2'', Number DEFAULT_RATE),
                        (''observations'', String obs)];
                     (randomCalls, clockCalls) = migrateCalls (rt_numStr rt) newItem
                 in (case migrateOrderItem (rt_numStr rt) (rt_random36 rt (Suc rc)) (rt_nowISO rt (Suc dc))
                            newItem of
                       Inl pageError \<Rightarrow>
                         (pushError (pageLabel fileName pageNum @ message pageError) result,
                          Suc rc + randomCalls, Suc dc + clockCalls)
                     | Inr migrated \<Rightarrow>
                         (result\<lparr>result_items := result_items result @ [migrated],
                                 itemsCreated := itemsCreated result + 1\<rparr>,
                          Suc rc + randomCalls, Suc dc + clockCalls))))"

text \<open>
  \<^verbatim>\<open>file.name.replace(/\.pdf$/i, '')\<close>, on a name that is known to end in \<^verbatim>\<open>.pdf\<close>
  in some case.
\<close>

definition stripPdfSuffix :: "string \<Rightarrow> string" where
  "stripPdfSuffix fileName =
     (if endsWith (toLowerCase fileName) ''.pdf'' then take (length fileName - 4) fileName
      else fileName)"

definition fileFailed :: "string \<Rightarrow> string \<Rightarrow> PdfImportResult \<Rightarrow> PdfImportResult" where
  "fileFailed fileName errorMsg result =
     (pushError (fileName @ '': '' @ errorMsg) result)
       \<lparr>filesFailed := filesFailed result + 1, success := False\<rparr>"

text \<open>
  \<^verbatim>\<open>onProgress?.(current, total)\<close>: the callback, when there is one, returns the
  message of the exception it throws, or \<open>None\<close> when it returns normally.
\<close>

definition callProgress ::
  "(nat \<Rightarrow> nat \<Rightarrow> string option) option \<Rightarrow> nat \<Rightarrow> nat \<Rightarrow> string option" where
  "callProgress onProgress current totalFiles =
     (case onProgress of None \<Rightarrow> None | Some callback \<Rightarrow> callback current totalFiles)"

text \<open>
  The body of the loop over the files, with its \<^verbatim>\<open>try/catch\<close>. The progress callback
  runs first and inside the \<^verbatim>\<open>try\<close>.
\<close>

definition processFile ::
  "runtime \<Rightarrow> (nat \<Rightarrow> nat \<Rightarrow> string option) option \<Rightarrow> nat \<Rightarrow>
   import_state \<Rightarrow> nat \<times> source_file \<Rightarrow> import_state" where
  "processFile rt onProgress totalFiles st nf =
     (case (st, nf) of ((result, rc, dc), (i, f)) \<Rightarrow>
       (case callProgress onProgress (i + 1) totalFiles of
          Some errorMsg \<Rightarrow> (fileFailed (file_name f) errorMsg result, rc, dc)
        | None \<Rightarrow>
            if \<not> endsWith (toLowerCase (file_name f)) ''.pdf'' then (result, rc, dc)
            else
              (case file_content f of
                 Inl errorMsg \<Rightarrow> (fileFailed (file_name f) errorMsg result, rc, dc)
               | Inr pages \<Rightarrow>
                   let fileNameBase = stripPdfSuffix (file_name f);
                       fileOS = extractOS (file_name f);
                       dimsFromFilename = extractDimensions (file_name f);
                       colorDetection = detectColors (file_name f);
                       (result', rc', dc') =
                         foldl (processPage rt (file_name f) fileNameBase fileOS dimsFromFilename
                                  colorDetection (length pages))
                           (result, rc, dc) (zip [1 ..< Suc (length pages)] pages)
                   in (result'\<lparr>filesProcessed := filesProcessed result' + 1\<rparr>, rc', dc'))))"

definition emptyResult :: PdfImportResult where
  "emptyResult =
     \<lparr>success = True, itemsCreated = 0, filesProcessed = 0, filesFailed = 0, errors = [],
      result_items = []\<rparr>"

text \<open>\<open>files\<close> is \<open>None\<close> when the caller passes no collection at all.\<close>

definition importPdfsToItems ::
  "runtime \<Rightarrow> source_file list option \<Rightarrow> (nat \<Rightarrow> nat \<Rightarrow> string option) option \<Rightarrow> PdfImportResult" where
  "importPdfsToItems rt files onProgress =
     (case files of
        None \<Rightarrow> emptyResult\<lparr>success := False, errors := [''Nenhum arquivo selecionado'']\<rparr>
      | Some fs \<Rightarrow>
          if length fs = 0
          then emptyResult\<lparr>success := False, errors := [''Nenhum arquivo selecionado'']\<rparr>
          else fst (foldl (processFile rt onProgress (length fs)) (emptyResult, 0, 0)
                      (zip [0 ..< length fs] fs)))"

section \<open>emailService.ts: batches\<close>

definition MAX_EMAIL_SIZE_BYTES :: nat where
  "MAX_EMAIL_SIZE_BYTES = 4000"

record 'n EmailBatch =
  items :: "'n OrderItem list"
  batchNumber :: nat
  totalBatches :: nat

text \<open>\<open>render\<close> is how a template literal prints a number of the items' number type.\<close>

definition formatItemForEmail :: "('n \<Rightarrow> string) \<Rightarrow> 'n OrderItem \<Rightarrow> nat \<Rightarrow> string" where
  "formatItemForEmail render item index =
     showNat index @ ''. OS: '' @ os item @ '' | '' @ clientDescription item @
     '' | Cores: '' @ (if colors item = [] then ''N/A'' else colors item) @
     '' | Dim: '' @ render (width item) @ ''x'' @ render (height item) @ ''cm''"

definition byteLength :: "string \<Rightarrow> nat" where
  "byteLength s = length s"

text \<open>
  The \<^verbatim>\<open>for ... of items\<close> loop; its state is \<^verbatim>\<open>batches\<close>, \<^verbatim>\<open>currentBatch\<close> and
  \<^verbatim>\<open>currentSize\<close>.
\<close>

fun splitLoop ::
  "('n \<Rightarrow> string) \<Rightarrow> 'n OrderItem list \<Rightarrow>
   'n EmailBatch list \<times> 'n OrderItem list \<times> nat \<Rightarrow>
   'n EmailBatch list \<times> 'n OrderItem list \<times> nat" where
  "splitLoop render [] st = st"
| "splitLoop render (item # rest) (batches, currentBatch, currentSize) =
     (let itemStr = formatItemForEmail render item 1;
          itemSize = byteLength itemStr;
          (batches', currentBatch', currentSize') =
            (if MAX_EMAIL_SIZE_BYTES < currentSize + itemSize \<and> 0 < length currentBatch
             then (batches @ [\<lparr>items = currentBatch, batchNumber = length batches + 1,
                               totalBatches = 0\<rparr>], [], 0)
             else (batches, currentBatch, currentSize))
      in splitLoop render rest (batches', currentBatch' @ [item], currentSize' + itemSize))"

definition splitIntoEmailBatches ::
  "('n \<Rightarrow> string) \<Rightarrow> 'n OrderItem list \<Rightarrow> 'n EmailBatch list" where
  "splitIntoEmailBatches render its =
     (let (batches, currentBatch, currentSize) = splitLoop render its ([], [], 0);
          batches' = (if 0 < length currentBatch
                      then batches @ [\<lparr>items = currentBatch, batchNumber = length batches + 1,
                                        totalBatches = 0\<rparr>]
                      else batches);
          total = length batches'
      in map (\<lambda>batch. batch\<lparr>totalBatches := total\<rparr>) batches')"

section \<open>App.tsx: calculation and archiving\<close>

text \<open>
  \<^verbatim>\<open>{ ...item, cm2Total, totalValue }\<close>. The number type only needs a multiplication;
  \<open>*\<close> associates to the left, as in the source.
\<close>

definition calculateItem :: "('n::times, 'z) OrderItem_scheme \<Rightarrow> 'n CalculatedItem" where
  "calculateItem item =
     (let cm2 = width item * height item * games item;
          total = cm2 * pricePerCm2 item
      in \<lparr>item_id = item_id item, os = os item, clientDescription = clientDescription item,
          colors = colors item, jobType = jobType item, date = date item, width = width item,
          height = height item, games = games item, pricePerCm2 = pricePerCm2 item,
          observations = observations item, cm2Total = cm2, totalValue = total\<rparr>)"

datatype tab = Production | History

text \<open>
  The state \<^verbatim>\<open>handleArchive\<close> reads and writes, with the alerts shown so far. A
  \<^verbatim>\<open>Date\<close> is given by the three readings the handler takes from it.
\<close>

record 'n app_state =
  st_items :: "'n OrderItem list"
  st_history :: "'n HistoryBatch list"
  totalStock :: 'n
  activeTab :: tab
  alerts :: "string list"

record js_date =
  toISOString :: string
  getMonth :: nat
  getFullYear :: int

definition handleArchive :: "bool \<Rightarrow> js_date \<Rightarrow> string \<Rightarrow> 'n app_state \<Rightarrow> 'n app_state" where
  "handleArchive confirmed now rnd36 st =
     (if length (st_items st) = 0
      then st\<lparr>alerts := alerts st @
                 [[CHR 0xE2, CHR 0x9D, CHR 0x8C] @ '' N'' @ [CHR 0xC3, CHR 0xA3] @ ''o h'' @
                  [CHR 0xC3, CHR 0xA1] @ '' itens para arquivar.'']\<rparr>
      else if \<not> confirmed then st
      else
        let newBatch =
              \<lparr>batch_id = randomId rnd36,
               timestamp = toISOString now,
               batch_items = st_items st,
               stockSnapshot = totalStock st,
               month = getMonth now,
               year = getFullYear now\<rparr>
        in st\<lparr>st_history := newBatch # st_history st,
              st_items := [],
              alerts := alerts st @
                 [[CHR 0xE2, CHR 0x9C, CHR 0x85] @ '' Produ'' @ [CHR 0xC3, CHR 0xA7, CHR 0xC3, CHR 0xA3] @
                  ''o arquivada com sucesso!''],
              activeTab := History\<rparr>)"

section \<open>Auxiliary notions for the statements\<close>

text \<open>
  The serialized size of a record, as the partitioner measures it, and the size of a
  list of records.
\<close>

definition itemSize :: "('n \<Rightarrow> string) \<Rightarrow> 'n OrderItem \<Rightarrow> nat" where
  "itemSize render item = byteLength (formatItemForEmail render item 1)"

definition batchSize :: "('n \<Rightarrow> string) \<Rightarrow> 'n OrderItem list \<Rightarrow> nat" where
  "batchSize render its = sum_list (map (itemSize render) its)"

text \<open>
  The greedy rule as the specification words it, as a recursion on the records still to
  come: \<open>cur\<close> is the current batch; when the size of \<open>cur\<close> plus the size of the next
  record exceeds the budget \<open>B\<close> and \<open>cur\<close> is not empty, \<open>cur\<close> is closed and the record
  starts a new batch, otherwise the record joins \<open>cur\<close>; at the end of the input a
  non-empty \<open>cur\<close> is closed.
\<close>

fun chunks :: "('a \<Rightarrow> nat) \<Rightarrow> nat \<Rightarrow> 'a list \<Rightarrow> 'a list \<Rightarrow> 'a list list" where
  "chunks sz B cur [] = (if cur = [] then [] else [cur])"
| "chunks sz B cur (x # xs) =
     (if B < sum_list (map sz cur) + sz x \<and> cur \<noteq> []
      then cur # chunks sz B [x] xs
      else chunks sz B (cur @ [x]) xs)"

text \<open>
  A rendering of the finite numbers that occur in the concrete instances, as the runtime
  prints them.
\<close>

definition sampleNumStr :: "rat \<Rightarrow> string" where
  "sampleNumStr x =
     (case map_of [(18, ''18''), (24, ''24''), (4, ''4''), (1, ''1''), (4787, ''4787''),
                   (798 / 10000, ''0.0798'')] x of
        Some s \<Rightarrow> s
      | None \<Rightarrow> ''0'')"

definition sampleRender :: "number \<Rightarrow> string" where
  "sampleRender = numberToString sampleNumStr"

text \<open>
  Sample records for the concrete instances: the serialized line of \<open>sampleItem n\<close>
  under \<open>sampleRender\<close> has \<open>n + 43\<close> bytes.
\<close>

definition sampleItem :: "nat \<Rightarrow> number OrderItem" where
  "sampleItem n =
     \<lparr>item_id = String ''1'', os = ''4787'', clientDescription = replicate n (CHR ''a''),
      colors = ''CMYK'', jobType = String ''Novo'', date = String ''2023-11-27'',
      width = Fin 18, height = Fin 24, games = Fin 4, pricePerCm2 = DEFAULT_RATE,
      observations = []\<rparr>"

text \<open>
  A sample application state: two current items, one batch in the history. The sample
  date is an instant whose local month and year differ from those of its ISO string.
\<close>

definition sampleBatch :: "number HistoryBatch" where
  "sampleBatch =
     \<lparr>batch_id = ''k3j9x0a1b'', timestamp = ''2023-11-30T12:00:00.000Z'',
      batch_items = [sampleItem 3], stockSnapshot = Fin 9000, month = 10, year = 2023\<rparr>"

definition sampleState :: "number app_state" where
  "sampleState =
     \<lparr>st_items = [sampleItem 7, sampleItem 8], st_history = [sampleBatch],
      totalStock = Fin 10000, activeTab = Production, alerts = []\<rparr>"

definition sampleDate :: js_date where
  "sampleDate = \<lparr>toISOString = ''2024-01-01T01:30:00.000Z'', getMonth = 11, getFullYear = 2023\<rparr>"

text \<open>The recognizers of \<open>patterns\<close> that match the lower-cased filename, in their order.\<close>

definition matching :: "string \<Rightarrow> pattern list" where
  "matching filename = filter (\<lambda>p. test (regex p) (toLowerCase filename)) patterns"


definition jobKinds :: "jsval list" where
  "jobKinds =
     [String ''Novo'', String (''Reimpress'' @ [CHR 0xC3, CHR 0xA3] @ ''o''), String ''Ajuste'']"




text \<open>A name that ends in \<^verbatim>\<open>.pdf\<close>, in any case of the letters.\<close>

definition isPdfName :: "string \<Rightarrow> bool" where
  "isPdfName fileName = endsWith (toLowerCase fileName) ''.pdf''"

text \<open>Sample runs of the import.\<close>

definition sampleRuntime :: runtime where
  "sampleRuntime =
     \<lparr>rt_numStr = sampleNumStr, rt_random36 = (\<lambda>k. ''0.4fzyo82mv''),
      rt_nowISO = (\<lambda>k. ''2026-11-03T10:00:00.000Z'')\<rparr>"

definition sampleFiles :: "source_file list" where
  "sampleFiles =
     [\<lparr>file_name = ''4787-180x240mm-CMYK.pdf'',
       file_content = Inr [Inr (Fin 595, Fin 842), Inl ''page is damaged'']\<rparr>,
      \<lparr>file_name = ''logo.PDF'', file_content = Inr [Inr (Fin 100000, Fin 842)]\<rparr>,
      \<lparr>file_name = ''notes.txt'', file_content = Inl ''not read''\<rparr>]"

definition skippedFiles :: "source_file list" where
  "skippedFiles =
     [\<lparr>file_name = ''notes.txt'', file_content = Inl ''not read''\<rparr>,
      \<lparr>file_name = ''4787-180x240mm-CMYK.pdf.bak'', file_content = Inr [Inr (Fin 595, Fin 842)]\<rparr>]"

section \<open>The batch partitioner\<close>

lemma splitLoop_step:
  "splitLoop render (item # rest) (batches, cur, sz) =
     (if MAX_EMAIL_SIZE_BYTES < sz + itemSize render item \<and> cur \<noteq> []
      then splitLoop render rest
             (batches @ [\<lparr>items = cur, batchNumber = length batches + 1, totalBatches = 0\<rparr>],
              [item], itemSize render item)
      else splitLoop render rest (batches, cur @ [item], sz + itemSize render item))"
  by (simp add: itemSize_def Let_def)

declare splitLoop.simps(2) [simp del]

lemma splitLoop_append:
  "splitLoop render (pre @ post) st = splitLoop render post (splitLoop render pre st)"
proof (induction pre arbitrary: st)
  case Nil
  then show ?case by simp
next
  case (Cons x pre)
  obtain batches cur sz where st: "st = (batches, cur, sz)" by (cases st) auto
  show ?case unfolding st append_Cons splitLoop_step by (simp add: Cons.IH)
qed

lemma splitLoop_size:
  "sz = batchSize render cur \<Longrightarrow> splitLoop render xs (bs, cur, sz) = (bs', cur', sz') \<Longrightarrow>
   sz' = batchSize render cur'"
proof (induction xs arbitrary: bs cur sz)
  case Nil
  then show ?case by auto
next
  case (Cons x xs)
  show ?case
  proof (cases "MAX_EMAIL_SIZE_BYTES < sz + itemSize render x \<and> cur \<noteq> []")
    case True
    with Cons.prems(2) have
      "splitLoop render xs
         (bs @ [\<lparr>items = cur, batchNumber = length bs + 1, totalBatches = 0\<rparr>], [x], itemSize render x) =
       (bs', cur', sz')"
      by (simp add: splitLoop_step)
    from Cons.IH [OF _ this] show ?thesis by (simp add: batchSize_def)
  next
    case False
    with Cons.prems(2) have
      "splitLoop render xs (bs, cur @ [x], sz + itemSize render x) = (bs', cur', sz')"
      by (simp add: splitLoop_step)
    from Cons.IH [OF _ this] Cons.prems(1) show ?thesis by (simp add: batchSize_def)
  qed
qed

lemma splitLoop_chunks:
  "sz = batchSize render cur \<Longrightarrow> splitLoop render xs (bs, cur, sz) = (bs', cur', sz') \<Longrightarrow>
   map items bs' @ (if cur' = [] then [] else [cur']) =
     map items bs @ chunks (itemSize render) MAX_EMAIL_SIZE_BYTES cur xs"
proof (induction xs arbitrary: bs cur sz)
  case Nil
  then show ?case by simp
next
  case (Cons x xs)
  show ?case
  proof (cases "MAX_EMAIL_SIZE_BYTES < sz + itemSize render x \<and> cur \<noteq> []")
    case True
    with Cons.prems(2) have
      "splitLoop render xs
         (bs @ [\<lparr>items = cur, batchNumber = length bs + 1, totalBatches = 0\<rparr>], [x], itemSize render x) =
       (bs', cur', sz')"
      by (simp add: splitLoop_step)
    from Cons.IH [OF _ this] True Cons.prems(1) show ?thesis
      by (simp add: batchSize_def)
  next
    case False
    with Cons.prems(2) have
      "splitLoop render xs (bs, cur @ [x], sz + itemSize render x) = (bs', cur', sz')"
      by (simp add: splitLoop_step)
    from Cons.IH [OF _ this] False Cons.prems(1) show ?thesis
      by (auto simp add: batchSize_def)
  qed
qed

lemma splitLoop_numbers:
  "splitLoop render xs (bs, cur, sz) = (bs', cur', sz') \<Longrightarrow>
   map batchNumber bs = [1 ..< Suc (length bs)] \<Longrightarrow>
   map batchNumber bs' = [1 ..< Suc (length bs')]"
proof (induction xs arbitrary: bs cur sz)
  case Nil
  then show ?case by simp
next
  case (Cons x xs)
  show ?case
  proof (cases "MAX_EMAIL_SIZE_BYTES < sz + itemSize render x \<and> cur \<noteq> []")
    case True
    with Cons.prems(1) have
      "splitLoop render xs
         (bs @ [\<lparr>items = cur, batchNumber = length bs + 1, totalBatches = 0\<rparr>], [x], itemSize render x) =
       (bs', cur', sz')"
      by (simp add: splitLoop_step)
    from Cons.IH [OF this] Cons.prems(2) show ?thesis by simp
  next
    case False
    with Cons.prems(1) have
      "splitLoop render xs (bs, cur @ [x], sz + itemSize render x) = (bs', cur', sz')"
      by (simp add: splitLoop_step)
    from Cons.IH [OF this] Cons.prems(2) show ?thesis by simp
  qed
qed

lemma split_items:
  "map items (splitIntoEmailBatches render xs) =
     chunks (itemSize render) MAX_EMAIL_SIZE_BYTES [] xs"
proof -
  obtain bs' cur' sz' where L: "splitLoop render xs ([], [], 0) = (bs', cur', sz')"
    by (cases "splitLoop render xs ([], [], 0)") auto
  from splitLoop_chunks [OF _ L] have
    "map items bs' @ (if cur' = [] then [] else [cur']) =
       chunks (itemSize render) MAX_EMAIL_SIZE_BYTES [] xs"
    by (simp add: batchSize_def)
  with L show ?thesis
    by (auto simp add: splitIntoEmailBatches_def Let_def o_def split: if_splits)
qed

lemma split_loop_link:
  "map items (splitIntoEmailBatches render xs) =
     (case splitLoop render xs ([], [], 0) of
        (batches, cur, sz) \<Rightarrow> map items batches @ (if cur = [] then [] else [cur]))"
  by (auto simp add: splitIntoEmailBatches_def Let_def o_def split: prod.splits)

lemma split_numbers:
  "map batchNumber (splitIntoEmailBatches render xs) =
     [1 ..< Suc (length (splitIntoEmailBatches render xs))]"
proof -
  obtain bs' cur' sz' where L: "splitLoop render xs ([], [], 0) = (bs', cur', sz')"
    by (cases "splitLoop render xs ([], [], 0)") auto
  from splitLoop_numbers [OF L] have "map batchNumber bs' = [1 ..< Suc (length bs')]"
    by simp
  with L show ?thesis
    by (auto simp add: splitIntoEmailBatches_def Let_def o_def)
qed

lemma split_total:
  "b \<in> set (splitIntoEmailBatches render xs) \<Longrightarrow>
   totalBatches b = length (splitIntoEmailBatches render xs)"
  by (auto simp add: splitIntoEmailBatches_def Let_def split: prod.splits if_splits)

lemma chunks_concat: "concat (chunks sz B cur xs) = cur @ xs"
  by (induction xs arbitrary: cur) auto

lemma chunks_nonempty: "[] \<notin> set (chunks sz B cur xs)"
  by (induction xs arbitrary: cur) auto

lemma chunks_hd: "chunks sz B cur xs \<noteq> [] \<Longrightarrow> \<exists>ys. hd (chunks sz B cur xs) = cur @ ys"
proof (induction xs arbitrary: cur)
  case Nil
  then show ?case by (simp split: if_splits)
next
  case (Cons x xs)
  show ?case
  proof (cases "B < sum_list (map sz cur) + sz x \<and> cur \<noteq> []")
    case True
    then show ?thesis by simp
  next
    case False
    with Cons.prems have "chunks sz B (cur @ [x]) xs \<noteq> []" by auto
    from Cons.IH [OF this] obtain ys where "hd (chunks sz B (cur @ [x]) xs) = (cur @ [x]) @ ys" ..
    with False have "hd (chunks sz B cur (x # xs)) = cur @ (x # ys)" by auto
    then show ?thesis ..
  qed
qed

lemma chunks_fit:
  "sum_list (map sz cur) \<le> B \<or> length cur \<le> 1 \<Longrightarrow> c \<in> set (chunks sz B cur xs) \<Longrightarrow>
   sum_list (map sz c) \<le> B \<or> length c = 1"
proof (induction xs arbitrary: cur)
  case Nil
  then show ?case by (cases cur) (auto split: if_splits)
next
  case (Cons x xs)
  show ?case
  proof (cases "B < sum_list (map sz cur) + sz x \<and> cur \<noteq> []")
    case True
    with Cons.prems(2) have "c = cur \<or> c \<in> set (chunks sz B [x] xs)" by simp
    then show ?thesis
    proof
      assume "c = cur"
      with Cons.prems(1) True show ?thesis by (cases cur) auto
    next
      assume "c \<in> set (chunks sz B [x] xs)"
      with Cons.IH [of "[x]"] show ?thesis by simp
    qed
  next
    case False
    with Cons.prems(2) have c: "c \<in> set (chunks sz B (cur @ [x]) xs)" by auto
    from False have "sum_list (map sz (cur @ [x])) \<le> B \<or> length (cur @ [x]) \<le> 1"
      by auto
    from Cons.IH [OF this c] show ?thesis .
  qed
qed

lemma chunks_maximal:
  "(a, b) \<in> set (zip (chunks sz B cur xs) (tl (chunks sz B cur xs))) \<Longrightarrow>
   \<exists>x rest. b = x # rest \<and> B < sum_list (map sz a) + sz x"
proof (induction xs arbitrary: cur)
  case Nil
  then show ?case by (auto split: if_splits)
next
  case (Cons x xs)
  note IH = Cons.IH
  show ?case
  proof (cases "B < sum_list (map sz cur) + sz x \<and> cur \<noteq> []")
    case True
    show ?thesis
    proof (cases "chunks sz B [x] xs")
      case Nil
      with True Cons.prems show ?thesis by simp
    next
      case (Cons d ds)
      from chunks_hd [of sz B "[x]" xs] Cons obtain ys where d: "d = x # ys" by auto
      from True Cons Cons.prems have
        "(a, b) = (cur, d) \<or>
         (a, b) \<in> set (zip (chunks sz B [x] xs) (tl (chunks sz B [x] xs)))"
        by auto
      then show ?thesis
      proof
        assume "(a, b) = (cur, d)"
        with d True show ?thesis by simp
      next
        assume "(a, b) \<in> set (zip (chunks sz B [x] xs) (tl (chunks sz B [x] xs)))"
        from IH [OF this] show ?thesis .
      qed
    qed
  next
    case False
    with Cons.prems have
      "(a, b) \<in> set (zip (chunks sz B (cur @ [x]) xs) (tl (chunks sz B (cur @ [x]) xs)))"
      by auto
    from IH [OF this] show ?thesis .
  qed
qed

lemma chunks_oversize:
  "c \<in> set (chunks sz B cur xs) \<Longrightarrow> x \<in> set c \<Longrightarrow> B < sz x \<Longrightarrow>
   (\<And>y. y \<in> set cur \<Longrightarrow> B < sz y \<Longrightarrow> cur = [y]) \<Longrightarrow> c = [x]"
proof (induction xs arbitrary: cur)
  case Nil
  then show ?case by (auto split: if_splits)
next
  case (Cons z zs)
  show ?case
  proof (cases "B < sum_list (map sz cur) + sz z \<and> cur \<noteq> []")
    case True
    with Cons.prems(1) have "c = cur \<or> c \<in> set (chunks sz B [z] zs)" by simp
    then show ?thesis
    proof
      assume "c = cur"
      with Cons.prems show ?thesis by auto
    next
      assume "c \<in> set (chunks sz B [z] zs)"
      from Cons.IH [OF this Cons.prems(2,3)] show ?thesis by simp
    qed
  next
    case False
    with Cons.prems(1) have c: "c \<in> set (chunks sz B (cur @ [z]) zs)" by auto
    have "\<And>y. y \<in> set (cur @ [z]) \<Longrightarrow> B < sz y \<Longrightarrow> cur @ [z] = [y]"
    proof -
      fix y assume y: "y \<in> set (cur @ [z])" "B < sz y"
      show "cur @ [z] = [y]"
      proof (cases "cur = []")
        case True
        with y show ?thesis by simp
      next
        case cne: False
        with False have le: "sum_list (map sz cur) + sz z \<le> B" by auto
        have "\<And>w. w \<in> set cur \<Longrightarrow> sz w \<le> sum_list (map sz cur)"
          by (simp add: member_le_sum_list)
        with le y show ?thesis by fastforce
      qed
    qed
    from Cons.IH [OF c Cons.prems(2,3) this] show ?thesis by simp
  qed
qed

lemma zip_map_tl:
  "(a, b) \<in> set (zip bs (tl bs)) \<Longrightarrow> (f a, f b) \<in> set (zip (map f bs) (tl (map f bs)))"
proof -
  assume "(a, b) \<in> set (zip bs (tl bs))"
  then have "(f a, f b) \<in> (\<lambda>(x, y). (f x, f y)) ` set (zip bs (tl bs))" by force
  also have "(\<lambda>(x, y). (f x, f y)) ` set (zip bs (tl bs)) = set (zip (map f bs) (map f (tl bs)))"
    by (simp add: zip_map_map)
  finally show ?thesis by (simp add: map_tl)
qed

lemma split_example:
  "map (itemSize render) [i1, i2, i3, i4] = [1000, 1000, 1000, 1500] \<Longrightarrow>
   splitIntoEmailBatches render [i1, i2, i3, i4] =
     [\<lparr>items = [i1, i2, i3], batchNumber = 1, totalBatches = 2\<rparr>,
      \<lparr>items = [i4], batchNumber = 2, totalBatches = 2\<rparr>]"
  by (simp add: splitIntoEmailBatches_def splitLoop_step MAX_EMAIL_SIZE_BYTES_def Let_def)

text \<open>
  Claim C2. \<open>splitIntoEmailBatches\<close> follows the greedy rule. Before a record \<open>x\<close> is
  added, the loop closes the current batch exactly when the accumulated size (the sum of
  the sizes of the records of the current batch) plus the size of \<open>x\<close> strictly exceeds
  the budget and the current batch is not empty; otherwise \<open>x\<close> joins the current
  batch. The batches returned are the batches this loop has closed followed by its last
  current batch when that is not empty, and their item lists are the greedy partition
  \<open>chunks\<close> of the input. Hence a returned batch exceeds the budget only when it is a
  single record, and a batch is followed by another one only when the first record of
  the next one would not have fitted. Every returned batch carries the final number of
  batches in \<open>totalBatches\<close>. Four records of serialized sizes 1000, 1000, 1000 and 1500
  give two batches, the first three records and the fourth, both with
  \<open>totalBatches = 2\<close>.
\<close>

theorem splitIntoEmailBatches_greedy:
  "splitLoop render (pre @ [x]) ([], [], 0) =
     (case splitLoop render pre ([], [], 0) of
        (batches, cur, sz) \<Rightarrow>
          if MAX_EMAIL_SIZE_BYTES < batchSize render cur + itemSize render x \<and> cur \<noteq> []
          then (batches @ [\<lparr>items = cur, batchNumber = length batches + 1, totalBatches = 0\<rparr>],
                [x], itemSize render x)
          else (batches, cur @ [x], batchSize render cur + itemSize render x))
   \<and> map items (splitIntoEmailBatches render its) =
       (case splitLoop render its ([], [], 0) of
          (batches, cur, sz) \<Rightarrow> map items batches @ (if cur = [] then [] else [cur]))
   \<and> map items (splitIntoEmailBatches render its) =
       chunks (itemSize render) MAX_EMAIL_SIZE_BYTES [] its
   \<and> (\<forall>b \<in> set (splitIntoEmailBatches render its).
        batchSize render (items b) \<le> MAX_EMAIL_SIZE_BYTES \<or> length (items b) = 1)
   \<and> (\<forall>(a, b) \<in> set (zip (splitIntoEmailBatches render its)
                           (tl (splitIntoEmailBatches render its))).
        \<exists>y rest. items b = y # rest \<and>
          MAX_EMAIL_SIZE_BYTES < batchSize render (items a) + itemSize render y)
   \<and> (\<forall>b \<in> set (splitIntoEmailBatches render its).
        totalBatches b = length (splitIntoEmailBatches render its))
   \<and> (map (itemSize render) [i1, i2, i3, i4] = [1000, 1000, 1000, 1500] \<longrightarrow>
        splitIntoEmailBatches render [i1, i2, i3, i4] =
          [\<lparr>items = [i1, i2, i3], batchNumber = 1, totalBatches = 2\<rparr>,
           \<lparr>items = [i4], batchNumber = 2, totalBatches = 2\<rparr>])"
proof (intro conjI ballI impI)
  obtain batches cur sz where L: "splitLoop render pre ([], [], 0) = (batches, cur, sz)"
    by (cases "splitLoop render pre ([], [], 0)") auto
  from splitLoop_size [OF _ L] have sz: "sz = batchSize render cur" by (simp add: batchSize_def)
  show "splitLoop render (pre @ [x]) ([], [], 0) =
     (case splitLoop render pre ([], [], 0) of
        (batches, cur, sz) \<Rightarrow>
          if MAX_EMAIL_SIZE_BYTES < batchSize render cur + itemSize render x \<and> cur \<noteq> []
          then (batches @ [\<lparr>items = cur, batchNumber = length batches + 1, totalBatches = 0\<rparr>],
                [x], itemSize render x)
          else (batches, cur @ [x], batchSize render cur + itemSize render x))"
    unfolding splitLoop_append L by (simp add: splitLoop_step sz)
next
  show "map items (splitIntoEmailBatches render its) =
       (case splitLoop render its ([], [], 0) of
          (batches, cur, sz) \<Rightarrow> map items batches @ (if cur = [] then [] else [cur]))"
    by (rule split_loop_link)
next
  show "map items (splitIntoEmailBatches render its) =
       chunks (itemSize render) MAX_EMAIL_SIZE_BYTES [] its"
    by (rule split_items)
next
  fix b assume "b \<in> set (splitIntoEmailBatches render its)"
  then have "items b \<in> set (chunks (itemSize render) MAX_EMAIL_SIZE_BYTES [] its)"
    unfolding split_items [symmetric] by simp
  from chunks_fit [OF _ this]
  show "batchSize render (items b) \<le> MAX_EMAIL_SIZE_BYTES \<or> length (items b) = 1"
    by (simp add: batchSize_def)
next
  fix p assume p: "p \<in> set (zip (splitIntoEmailBatches render its)
                           (tl (splitIntoEmailBatches render its)))"
  obtain a b where ab: "p = (a, b)" by (cases p) auto
  from p ab zip_map_tl [of a b "splitIntoEmailBatches render its" items]
  have "(items a, items b) \<in> set (zip (chunks (itemSize render) MAX_EMAIL_SIZE_BYTES [] its)
          (tl (chunks (itemSize render) MAX_EMAIL_SIZE_BYTES [] its)))"
    by (simp add: split_items)
  from chunks_maximal [OF this] ab
  show "case p of (a, b) \<Rightarrow> \<exists>y rest. items b = y # rest \<and>
          MAX_EMAIL_SIZE_BYTES < batchSize render (items a) + itemSize render y"
    by (simp add: batchSize_def)
next
  fix b assume "b \<in> set (splitIntoEmailBatches render its)"
  then show "totalBatches b = length (splitIntoEmailBatches render its)"
    by (rule split_total)
next
  assume "map (itemSize render) [i1, i2, i3, i4] = [1000, 1000, 1000, 1500]"
  then show "splitIntoEmailBatches render [i1, i2, i3, i4] =
          [\<lparr>items = [i1, i2, i3], batchNumber = 1, totalBatches = 2\<rparr>,
           \<lparr>items = [i4], batchNumber = 2, totalBatches = 2\<rparr>]"
    by (rule split_example)
qed

lemma sample_size: "itemSize sampleRender (sampleItem n) = n + 43"
  by (simp add: itemSize_def byteLength_def formatItemForEmail_def sampleItem_def sampleRender_def
      numberToString_def sampleNumStr_def showNat.simps)

lemma sample_chunks:
  "chunks (itemSize sampleRender) MAX_EMAIL_SIZE_BYTES []
     [sampleItem 957, sampleItem 957, sampleItem 957, sampleItem 1457] =
   [[sampleItem 957, sampleItem 957, sampleItem 957], [sampleItem 1457]]"
  by (simp add: sample_size MAX_EMAIL_SIZE_BYTES_def)

theorem splitIntoEmailBatches_greedy_witness:
  "map (itemSize sampleRender) [sampleItem 957, sampleItem 957, sampleItem 957, sampleItem 1457] =
     [1000, 1000, 1000, 1500]
   \<and> splitIntoEmailBatches sampleRender
       [sampleItem 957, sampleItem 957, sampleItem 957, sampleItem 1457] =
     [\<lparr>items = [sampleItem 957, sampleItem 957, sampleItem 957], batchNumber = 1,
        totalBatches = 2\<rparr>,
      \<lparr>items = [sampleItem 1457], batchNumber = 2, totalBatches = 2\<rparr>]
   \<and> chunks (itemSize sampleRender) MAX_EMAIL_SIZE_BYTES []
       [sampleItem 957, sampleItem 957, sampleItem 957, sampleItem 1457] =
     [[sampleItem 957, sampleItem 957, sampleItem 957], [sampleItem 1457]]
   \<and> batchSize sampleRender [sampleItem 957, sampleItem 957, sampleItem 957] = 3000
   \<and> MAX_EMAIL_SIZE_BYTES < 3000 + itemSize sampleRender (sampleItem 1457)"
  using splitIntoEmailBatches_greedy [where render = sampleRender
      and pre = "[sampleItem 957, sampleItem 957, sampleItem 957]" and x = "sampleItem 1457"
      and its = "[sampleItem 957, sampleItem 957, sampleItem 957, sampleItem 1457]"
      and ?i1.0 = "sampleItem 957" and ?i2.0 = "sampleItem 957" and ?i3.0 = "sampleItem 957"
      and ?i4.0 = "sampleItem 1457"]
  by (simp add: sample_size sample_chunks batchSize_def MAX_EMAIL_SIZE_BYTES_def)

text \<open>
  Claim C6. The item lists of the returned batches, concatenated in batch order, are the
  input list; no returned batch is empty; a record whose serialized size alone exceeds
  the budget is the only record of its batch, and a single record always gives one batch
  holding it; the batch numbers are 1, 2, ... in the order of construction.
\<close>

theorem splitIntoEmailBatches_partition:
  "concat (map items (splitIntoEmailBatches render its)) = its
   \<and> (\<forall>b \<in> set (splitIntoEmailBatches render its). items b \<noteq> [])
   \<and> (\<forall>b \<in> set (splitIntoEmailBatches render its). \<forall>x \<in> set (items b).
        MAX_EMAIL_SIZE_BYTES < itemSize render x \<longrightarrow> items b = [x])
   \<and> splitIntoEmailBatches render [x] = [\<lparr>items = [x], batchNumber = 1, totalBatches = 1\<rparr>]
   \<and> map batchNumber (splitIntoEmailBatches render its) =
       [1 ..< Suc (length (splitIntoEmailBatches render its))]"
proof (intro conjI ballI impI)
  show "concat (map items (splitIntoEmailBatches render its)) = its"
    by (simp add: split_items chunks_concat)
next
  fix b assume "b \<in> set (splitIntoEmailBatches render its)"
  then have "items b \<in> set (chunks (itemSize render) MAX_EMAIL_SIZE_BYTES [] its)"
    unfolding split_items [symmetric] by simp
  with chunks_nonempty [of "itemSize render" MAX_EMAIL_SIZE_BYTES "[]" its]
  show "items b \<noteq> []" by auto
next
  fix b y assume b: "b \<in> set (splitIntoEmailBatches render its)" and y: "y \<in> set (items b)"
    and big: "MAX_EMAIL_SIZE_BYTES < itemSize render y"
  from b have "items b \<in> set (chunks (itemSize render) MAX_EMAIL_SIZE_BYTES [] its)"
    unfolding split_items [symmetric] by simp
  from chunks_oversize [OF this y big] show "items b = [y]" by simp
next
  show "splitIntoEmailBatches render [x] = [\<lparr>items = [x], batchNumber = 1, totalBatches = 1\<rparr>]"
    by (simp add: splitIntoEmailBatches_def splitLoop_step)
next
  show "map batchNumber (splitIntoEmailBatches render its) =
       [1 ..< Suc (length (splitIntoEmailBatches render its))]"
    by (rule split_numbers)
qed

theorem splitIntoEmailBatches_partition_witness:
  "MAX_EMAIL_SIZE_BYTES < itemSize sampleRender (sampleItem 5000)
   \<and> map items (splitIntoEmailBatches sampleRender [sampleItem 7, sampleItem 5000, sampleItem 7]) =
       [[sampleItem 7], [sampleItem 5000], [sampleItem 7]]
   \<and> map batchNumber (splitIntoEmailBatches sampleRender [sampleItem 7, sampleItem 5000, sampleItem 7]) =
       [1, 2, 3]"
  using splitIntoEmailBatches_partition [of sampleRender
      "[sampleItem 7, sampleItem 5000, sampleItem 7]" "sampleItem 5000"]
  by (simp add: splitIntoEmailBatches_def splitLoop_step sample_size MAX_EMAIL_SIZE_BYTES_def)

section \<open>Calculation and archiving\<close>

text \<open>
  Claim C7. \<open>calculateItem\<close> returns its input Order Item extended with
  \<open>cm2Total = width * height * games\<close> and \<open>totalValue = cm2Total * pricePerCm2\<close>, the
  products as the number type computes them and with nothing rounded; the original
  fields are unchanged. It is a function of the item alone, hence deterministic;
  applying it to its own result gives the same result, and previously derived fields
  have no influence.
\<close>

theorem calculateItem_derived:
  fixes item :: "('n::times) OrderItem" and c :: "'n CalculatedItem"
  shows
  "OrderItem.truncate (calculateItem item) = item
   \<and> cm2Total (calculateItem item) = width item * height item * games item
   \<and> totalValue (calculateItem item) = width item * height item * games item * pricePerCm2 item
   \<and> calculateItem (calculateItem item) = calculateItem item
   \<and> calculateItem c = calculateItem (OrderItem.truncate c)"
  by (simp add: calculateItem_def OrderItem.truncate_def Let_def)

text \<open>
  Claim C8 as stated fails: with two current items and the user declining the
  confirmation prompt, \<open>handleArchive\<close> leaves the working set and the history as they
  were.
\<close>

theorem handleArchive_declined_counterexample:
  "st_items sampleState \<noteq> []
   \<and> st_items (handleArchive False sampleDate ''0.4fzyo82mv'' sampleState) = st_items sampleState
   \<and> st_history (handleArchive False sampleDate ''0.4fzyo82mv'' sampleState) = st_history sampleState"
  by (simp add: handleArchive_def sampleState_def)

text \<open>
  Claim C8, amended. When the working set is not empty and the user accepts the
  confirmation prompt, \<open>handleArchive\<close> empties the working set and puts exactly one new
  History Batch in front of the history: it holds the former current items in their
  order, the stock level as \<open>stockSnapshot\<close>, and the ISO string, month and year read
  from the one \<^verbatim>\<open>Date\<close> taken at creation; the batches that were there are unchanged.
  When the working set is empty or the user declines, the working set and the history
  are unchanged. The stock level is never changed.
\<close>

theorem handleArchive_all_or_nothing:
  "(st_items st \<noteq> [] \<and> confirmed \<longrightarrow>
      st_items (handleArchive confirmed now rnd36 st) = []
      \<and> st_history (handleArchive confirmed now rnd36 st) =
          \<lparr>batch_id = randomId rnd36, timestamp = toISOString now, batch_items = st_items st,
           stockSnapshot = totalStock st, month = getMonth now, year = getFullYear now\<rparr>
          # st_history st
      \<and> totalStock (handleArchive confirmed now rnd36 st) = totalStock st)
   \<and> (st_items st = [] \<or> \<not> confirmed \<longrightarrow>
      st_items (handleArchive confirmed now rnd36 st) = st_items st
      \<and> st_history (handleArchive confirmed now rnd36 st) = st_history st
      \<and> totalStock (handleArchive confirmed now rnd36 st) = totalStock st)"
  by (simp add: handleArchive_def Let_def)

theorem handleArchive_all_or_nothing_witness:
  "st_items sampleState \<noteq> []
   \<and> st_items (handleArchive True sampleDate ''0.4fzyo82mv'' sampleState) = []
   \<and> st_history (handleArchive True sampleDate ''0.4fzyo82mv'' sampleState) =
       [\<lparr>batch_id = ''4fzyo82mv'', timestamp = ''2024-01-01T01:30:00.000Z'',
         batch_items = [sampleItem 7, sampleItem 8], stockSnapshot = Fin 10000,
         month = 11, year = 2023\<rparr>,
        sampleBatch]
   \<and> st_items (handleArchive False sampleDate ''0.4fzyo82mv'' sampleState) =
       [sampleItem 7, sampleItem 8]
   \<and> st_history (handleArchive False sampleDate ''0.4fzyo82mv'' sampleState) = [sampleBatch]"
  using handleArchive_all_or_nothing [of sampleState True sampleDate "''0.4fzyo82mv''"]
    handleArchive_all_or_nothing [of sampleState False sampleDate "''0.4fzyo82mv''"]
  by (simp add: sampleState_def sampleDate_def randomId_def)

section \<open>The heuristic extractor\<close>

lemma detectLoop_filter:
  "detectLoop s ps (detected, totalGames) =
     (detected @ map name (filter (\<lambda>p. test (regex p) s) ps),
      totalGames + sum_list (map p_games (filter (\<lambda>p. test (regex p) s) ps)))"
  by (induction ps arbitrary: detected totalGames) simp_all

lemma matching_empty: "matching [] = []"
  unfolding matching_def by code_simp

lemma patterns_table:
  "map (\<lambda>p. (name p, p_games p)) patterns =
     [(''CMYK'', 4), (''PANTONE'', 1), (''GRAY'', 1), (''BLACK'', 1), (''WHITE'', 1),
      (''RED'', 1), (''BLUE'', 1)]"
  by (simp add: patterns_def)

lemma detectColors_matching:
  "detectColors filename =
     \<lparr>cd_colors = map name (matching filename),
      gameCount = max 1 (sum_list (map p_games (matching filename)))\<rparr>"
proof (cases "filename = []")
  case True
  then show ?thesis by (simp add: detectColors_def matching_empty)
next
  case False
  then show ?thesis
    by (simp add: detectColors_def detectLoop_filter matching_def Let_def)
qed

text \<open>
  Claim C9. For every filename, the colour tags \<open>detectColors\<close> returns are exactly the
  names of the matching recognizers of the fixed ordered list, and \<open>gameCount\<close> is the
  maximum of 1 and the sum of their implied counts: CMYK counts 4, the spot-colour code,
  gray, black, white, red and blue count 1 each. So \<open>gameCount\<close> is never 0, and a
  filename that no recognizer matches gives no tag and \<open>gameCount = 1\<close>.
\<close>

theorem detectColors_recognizers:
  "cd_colors (detectColors filename) = map name (matching filename)
   \<and> gameCount (detectColors filename) = max 1 (sum_list (map p_games (matching filename)))
   \<and> map (\<lambda>p. (name p, p_games p)) patterns =
       [(''CMYK'', 4), (''PANTONE'', 1), (''GRAY'', 1), (''BLACK'', 1), (''WHITE'', 1),
        (''RED'', 1), (''BLUE'', 1)]
   \<and> 1 \<le> gameCount (detectColors filename)
   \<and> (matching filename = [] \<longrightarrow> detectColors filename = \<lparr>cd_colors = [], gameCount = 1\<rparr>)"
  by (simp add: detectColors_matching patterns_table)

lemma matching_logo: "matching ''logo_final.pdf'' = []"
  unfolding matching_def by code_simp

lemma matching_many:
  "map name (matching ''Job 485C cmyk P&B.pdf'') = [''CMYK'', ''PANTONE'', ''BLACK'']"
  unfolding matching_def by code_simp

theorem detectColors_recognizers_witness:
  "matching ''logo_final.pdf'' = []
   \<and> detectColors ''logo_final.pdf'' = \<lparr>cd_colors = [], gameCount = 1\<rparr>"
  using detectColors_recognizers [of "''logo_final.pdf''"] matching_logo by simp

text \<open>
  Claim C1 as stated fails: in \<^verbatim>\<open>4787_180x240mm_CMYK.pdf\<close> the underscore is a word
  character, so there is no word boundary after \<^verbatim>\<open>4787\<close> nor before \<^verbatim>\<open>CMYK\<close>.
\<close>

theorem filename_example_counterexample:
  "extractOS ''4787_180x240mm_CMYK.pdf'' \<noteq> ''4787''
   \<and> cd_colors (detectColors ''4787_180x240mm_CMYK.pdf'') \<noteq> [''CMYK'']
   \<and> gameCount (detectColors ''4787_180x240mm_CMYK.pdf'') \<noteq> 4"
  by code_simp

text \<open>
  Claim C1, amended. For the filename \<^verbatim>\<open>4787_180x240mm_CMYK.pdf\<close>,
  \<open>extractDimensions\<close> yields width 18 cm and height 24 cm (millimetres divided by 10 and
  rounded to 2 decimals), \<open>extractOS\<close> yields the empty job number, and \<open>detectColors\<close>
  yields no colour and a games count of 1. With separators that are not word characters,
  as in \<^verbatim>\<open>4787-180x240mm-CMYK.pdf\<close>, the job number is \<^verbatim>\<open>4787\<close>, the dimensions are
  18 cm and 24 cm, the colours are \<^verbatim>\<open>["CMYK"]\<close> and the games count is 4.
\<close>

theorem filename_example:
  "extractOS ''4787_180x240mm_CMYK.pdf'' = []
   \<and> extractDimensions ''4787_180x240mm_CMYK.pdf'' = Some \<lparr>dim_width = Fin 18, dim_height = Fin 24\<rparr>
   \<and> detectColors ''4787_180x240mm_CMYK.pdf'' = \<lparr>cd_colors = [], gameCount = 1\<rparr>
   \<and> extractOS ''4787-180x240mm-CMYK.pdf'' = ''4787''
   \<and> extractDimensions ''4787-180x240mm-CMYK.pdf'' = Some \<lparr>dim_width = Fin 18, dim_height = Fin 24\<rparr>
   \<and> detectColors ''4787-180x240mm-CMYK.pdf'' = \<lparr>cd_colors = [''CMYK''], gameCount = 4\<rparr>"
  by code_simp

section \<open>The record migrator\<close>

lemma parse_samples:
  "parseFloatStr ''undefined'' = NaN" "parseIntStr ''undefined'' = NaN"
  "parseFloatStr ''18.5'' = Fin (37 / 2)" "parseFloatStr ''24'' = Fin 24"
  "parseIntStr ''4 jogos'' = Fin 4" "parseFloatStr ''abc'' = NaN"
  by code_simp+










lemma bindE_InrE:
  "bindE m f = Inr y \<Longrightarrow> (\<And>x. m = Inr x \<Longrightarrow> f x = Inr y \<Longrightarrow> P) \<Longrightarrow> P"
  by (cases m) (simp_all add: bindE_def)






text \<open>
  Claim C3. The claim says that a job kind outside the enumeration becomes \<^verbatim>\<open>Novo\<close>, so
  that the \<open>jobType\<close> of every result is a member of the enumeration; the source asserts
  the same with its cast to the three kinds. The code does not do it: for the object
  \<^verbatim>\<open>{jobType: 'Urgente'}\<close> it returns an Order Item, with every other field at its
  default, whose \<open>jobType\<close> is still \<^verbatim>\<open>Urgente\<close>, which is not a member of the
  enumeration.
\<close>

theorem migrateOrderItem_jobType_kept:
  "migrateOrderItem numStr random36 nowISO (Object [(''jobType'', String ''Urgente'')]) =
     Inr \<lparr>item_id = String (randomId random36), os = [], clientDescription = [], colors = [],
          jobType = String ''Urgente'', date = String (isoDate nowISO), width = Fin 0,
          height = Fin 0, games = Fin 1, pricePerCm2 = Fin (798 / 10000), observations = []\<rparr>
   \<and> String ''Urgente'' \<notin> set jobKinds"
  by (simp add: migrateOrderItem_def truthy_def typeof_def get_def orElse_def orNum_def
      bindE_def parseFloat_def parseInt_def validateGames_def parse_samples isNaN_def
      jobKinds_def)

theorem migrateOrderItem_jobType_kept_witness:
  "map_sum id jobType
     (migrateOrderItem sampleNumStr ''0.4fzyo82mv'' ''2026-11-03T10:00:00.000Z''
        (Object [(''jobType'', String ''Urgente'')])) = Inr (String ''Urgente'')
   \<and> String ''Urgente'' \<notin> set jobKinds"
  using migrateOrderItem_jobType_kept [of sampleNumStr "''0.4fzyo82mv''" "''2026-11-03T10:00:00.000Z''"]
  by simp

text \<open>
  What the code does with the job kind: a falsy one becomes \<^verbatim>\<open>Novo\<close>, every other value
  is kept, whenever the call returns.
\<close>

lemma migrateOrderItem_jobType_rule:
  "migrateOrderItem numStr random36 nowISO item = Inr it \<Longrightarrow>
   jobType it = (if truthy (get item ''jobType'') then get item ''jobType'' else String ''Novo'')"
  by (auto simp add: migrateOrderItem_def orElse_def split: if_splits elim!: bindE_InrE)





text \<open>
  Two cases that the amended claim leaves open. A draw of exactly 0 is rendered as
  \<^verbatim>\<open>0\<close>, and \<^verbatim>\<open>substr(2, 9)\<close> of it is empty. A stored field that is an object with an own
  property \<^verbatim>\<open>toString\<close>, as \<^verbatim>\<open>JSON.parse\<close> gives for \<^verbatim>\<open>{"os": {"toString": null}}\<close>, makes
  the conversion, and with it the call, throw a \<^verbatim>\<open>TypeError\<close>.
\<close>

lemma random_zero_empty_id:
  "map_sum id item_id
     (migrateOrderItem sampleNumStr ''0'' ''2026-11-03T10:00:00.000Z'' (Object [])) = Inr (String [])"
  by (simp add: migrateOrderItem_def truthy_def typeof_def get_def orElse_def randomId_def
      bindE_def parseFloat_def parseInt_def validateGames_def)

lemma own_toString_throws:
  "migrateOrderItem numStr random36 nowISO (Object [(''os'', Object [(''toString'', Null)])]) =
     Inl (TypeError ''Cannot convert object to primitive value'')"
  by (simp add: migrateOrderItem_def truthy_def typeof_def get_def orElse_def bindE_def)

section \<open>The ingestion orchestrator\<close>

lemma processPage_frame:
  "success (fst (processPage rt fn fb fo dims cd n st np)) = success (fst st)
   \<and> filesFailed (fst (processPage rt fn fb fo dims cd n st np)) = filesFailed (fst st)
   \<and> filesProcessed (fst (processPage rt fn fb fo dims cd n st np)) = filesProcessed (fst st)"
  by (auto simp add: processPage_def pushError_def Let_def
      split: prod.splits sum.splits option.splits exn.splits)

lemma processPage_outcome:
  "(\<exists>msg. errors (fst (processPage rt fn fb fo dims cd n st np)) = errors (fst st) @ [msg]
      \<and> result_items (fst (processPage rt fn fb fo dims cd n st np)) = result_items (fst st)
      \<and> itemsCreated (fst (processPage rt fn fb fo dims cd n st np)) = itemsCreated (fst st))
   \<or> (\<exists>it. errors (fst (processPage rt fn fb fo dims cd n st np)) = errors (fst st)
      \<and> result_items (fst (processPage rt fn fb fo dims cd n st np)) = result_items (fst st) @ [it]
      \<and> itemsCreated (fst (processPage rt fn fb fo dims cd n st np)) = itemsCreated (fst st) + 1)"
  by (auto simp add: processPage_def pushError_def Let_def
      split: prod.splits sum.splits option.splits exn.splits)

lemma pages_frame:
  "success (fst (foldl (processPage rt fn fb fo dims cd n) st nps)) = success (fst st)
   \<and> filesFailed (fst (foldl (processPage rt fn fb fo dims cd n) st nps)) = filesFailed (fst st)
   \<and> filesProcessed (fst (foldl (processPage rt fn fb fo dims cd n) st nps)) = filesProcessed (fst st)"
proof (induction nps arbitrary: st)
  case Nil
  show ?case by simp
next
  case (Cons np nps)
  show ?case
    using Cons.IH [of "processPage rt fn fb fo dims cd n st np"] processPage_frame [of rt fn fb fo dims cd n st np]
    by simp
qed

lemma processFile_inv:
  "success (fst st) = (filesFailed (fst st) = 0) \<Longrightarrow>
   success (fst (processFile rt onProgress totalFiles st nf)) =
     (filesFailed (fst (processFile rt onProgress totalFiles st nf)) = 0)"
proof -
  assume inv: "success (fst st) = (filesFailed (fst st) = 0)"
  obtain result rc dc where st: "st = (result, rc, dc)" by (cases st) auto
  obtain i f where nf: "nf = (i, f)" by (cases nf) auto
  show ?thesis
  proof (cases "callProgress onProgress (i + 1) totalFiles")
    case (Some msg)
    then show ?thesis
      by (simp add: processFile_def st nf fileFailed_def pushError_def)
  next
    case None
    show ?thesis
    proof (cases "endsWith (toLowerCase (file_name f)) ''.pdf''")
      case False
      with None inv show ?thesis by (simp add: processFile_def st nf)
    next
      case True
      show ?thesis
      proof (cases "file_content f")
        case (Inl msg)
        with None True show ?thesis
          by (simp add: processFile_def st nf fileFailed_def pushError_def)
      next
        case (Inr pages)
        let ?st' = "foldl (processPage rt (file_name f) (stripPdfSuffix (file_name f))
                      (extractOS (file_name f)) (extractDimensions (file_name f))
                      (detectColors (file_name f)) (length pages))
                    (result, rc, dc) (zip [1 ..< Suc (length pages)] pages)"
        obtain r' rc' dc' where f: "?st' = (r', rc', dc')" by (cases ?st') auto
        from pages_frame [of rt "file_name f" "stripPdfSuffix (file_name f)" "extractOS (file_name f)"
            "extractDimensions (file_name f)" "detectColors (file_name f)" "length pages"
            "(result, rc, dc)" "zip [1 ..< Suc (length pages)] pages"] f
        have r': "success r' = success result" "filesFailed r' = filesFailed result"
          by (simp_all del: upt_Suc)
        from None True Inr f have
          "processFile rt onProgress totalFiles st nf =
             (r'\<lparr>filesProcessed := filesProcessed r' + 1\<rparr>, rc', dc')"
          by (simp add: processFile_def st nf Let_def del: upt_Suc)
        with r' inv st show ?thesis by simp
      qed
    qed
  qed
qed

lemma files_inv:
  "success (fst st) = (filesFailed (fst st) = 0) \<Longrightarrow>
   success (fst (foldl (processFile rt onProgress totalFiles) st nfs)) =
     (filesFailed (fst (foldl (processFile rt onProgress totalFiles) st nfs)) = 0)"
proof (induction nfs arbitrary: st)
  case Nil
  then show ?case by simp
next
  case (Cons nf nfs)
  from Cons.IH [OF processFile_inv [OF Cons.prems]] show ?case by simp
qed

lemma processFile_skip:
  "\<not> isPdfName (file_name f) \<Longrightarrow> callProgress onProgress (i + 1) totalFiles = None \<Longrightarrow>
   processFile rt onProgress totalFiles st (i, f) = st"
  by (cases st) (simp add: processFile_def isPdfName_def)

lemma files_skip:
  "\<forall>nf \<in> set nfs. \<not> isPdfName (file_name (snd nf)) \<and>
       callProgress onProgress (fst nf + 1) totalFiles = None \<Longrightarrow>
   foldl (processFile rt onProgress totalFiles) st nfs = st"
proof (induction nfs arbitrary: st)
  case Nil
  show ?case by simp
next
  case (Cons nf nfs)
  obtain i f where nf: "nf = (i, f)" by (cases nf) auto
  from Cons.prems nf have "processFile rt onProgress totalFiles st nf = st"
    by (simp add: processFile_skip)
  with Cons show ?case by simp
qed

text \<open>
  Claim C4 as stated fails: for the empty collection the result has no file-level
  failure and yet \<open>success\<close> is false.
\<close>

theorem importPdfsToItems_empty_counterexample:
  "\<not> (success (importPdfsToItems sampleRuntime (Some []) None) =
        (filesFailed (importPdfsToItems sampleRuntime (Some []) None) = 0))"
  by (simp add: importPdfsToItems_def emptyResult_def)

text \<open>
  Claim C4, amended. For every non-empty file collection the result of
  \<open>importPdfsToItems\<close> has \<open>success = true\<close> if and only if \<open>filesFailed = 0\<close>; for an
  empty or missing collection it has \<open>success = false\<close>, \<open>filesFailed = 0\<close> and the one
  error \<^verbatim>\<open>Nenhum arquivo selecionado\<close>. Processing a page never changes \<open>success\<close> or
  \<open>filesFailed\<close>: it either appends one error string and creates no item, or appends
  one item, counts it and adds no error. The result is a record of \<open>success\<close>,
  \<open>itemsCreated\<close>, \<open>filesProcessed\<close>, \<open>filesFailed\<close>, the ordered error strings and the
  items.
\<close>

theorem importPdfsToItems_success:
  "(fs \<noteq> [] \<longrightarrow>
      success (importPdfsToItems rt (Some fs) onProgress) =
        (filesFailed (importPdfsToItems rt (Some fs) onProgress) = 0))
   \<and> importPdfsToItems rt (Some []) onProgress =
       \<lparr>success = False, itemsCreated = 0, filesProcessed = 0, filesFailed = 0,
        errors = [''Nenhum arquivo selecionado''], result_items = []\<rparr>
   \<and> importPdfsToItems rt None onProgress =
       \<lparr>success = False, itemsCreated = 0, filesProcessed = 0, filesFailed = 0,
        errors = [''Nenhum arquivo selecionado''], result_items = []\<rparr>
   \<and> success (fst (processPage rt fileName fileNameBase fileOS dims colorDetection n st np)) =
       success (fst st)
   \<and> filesFailed (fst (processPage rt fileName fileNameBase fileOS dims colorDetection n st np)) =
       filesFailed (fst st)
   \<and> ((\<exists>msg. errors (fst (processPage rt fileName fileNameBase fileOS dims colorDetection n st np)) =
              errors (fst st) @ [msg]
          \<and> result_items (fst (processPage rt fileName fileNameBase fileOS dims colorDetection n st np)) =
              result_items (fst st)
          \<and> itemsCreated (fst (processPage rt fileName fileNameBase fileOS dims colorDetection n st np)) =
              itemsCreated (fst st))
      \<or> (\<exists>it. errors (fst (processPage rt fileName fileNameBase fileOS dims colorDetection n st np)) =
              errors (fst st)
          \<and> result_items (fst (processPage rt fileName fileNameBase fileOS dims colorDetection n st np)) =
              result_items (fst st) @ [it]
          \<and> itemsCreated (fst (processPage rt fileName fileNameBase fileOS dims colorDetection n st np)) =
              itemsCreated (fst st) + 1))"
proof (intro conjI impI)
  assume "fs \<noteq> []"
  then show "success (importPdfsToItems rt (Some fs) onProgress) =
        (filesFailed (importPdfsToItems rt (Some fs) onProgress) = 0)"
    using files_inv [of "(emptyResult, 0, 0)" rt onProgress "length fs" "zip [0 ..< length fs] fs"]
    by (simp add: importPdfsToItems_def emptyResult_def)
next
  show "importPdfsToItems rt (Some []) onProgress =
       \<lparr>success = False, itemsCreated = 0, filesProcessed = 0, filesFailed = 0,
        errors = [''Nenhum arquivo selecionado''], result_items = []\<rparr>"
    by (simp add: importPdfsToItems_def emptyResult_def)
next
  show "importPdfsToItems rt None onProgress =
       \<lparr>success = False, itemsCreated = 0, filesProcessed = 0, filesFailed = 0,
        errors = [''Nenhum arquivo selecionado''], result_items = []\<rparr>"
    by (simp add: importPdfsToItems_def emptyResult_def)
next
  show "success (fst (processPage rt fileName fileNameBase fileOS dims colorDetection n st np)) =
       success (fst st)"
    by (simp add: processPage_frame)
next
  show "filesFailed (fst (processPage rt fileName fileNameBase fileOS dims colorDetection n st np)) =
       filesFailed (fst st)"
    by (simp add: processPage_frame)
next
  show "(\<exists>msg. errors (fst (processPage rt fileName fileNameBase fileOS dims colorDetection n st np)) =
              errors (fst st) @ [msg]
          \<and> result_items (fst (processPage rt fileName fileNameBase fileOS dims colorDetection n st np)) =
              result_items (fst st)
          \<and> itemsCreated (fst (processPage rt fileName fileNameBase fileOS dims colorDetection n st np)) =
              itemsCreated (fst st))
      \<or> (\<exists>it. errors (fst (processPage rt fileName fileNameBase fileOS dims colorDetection n st np)) =
              errors (fst st)
          \<and> result_items (fst (processPage rt fileName fileNameBase fileOS dims colorDetection n st np)) =
              result_items (fst st) @ [it]
          \<and> itemsCreated (fst (processPage rt fileName fileNameBase fileOS dims colorDetection n st np)) =
              itemsCreated (fst st) + 1)"
    by (rule processPage_outcome)
qed

text \<open>
  Claim C10, amended. In \<open>importPdfsToItems\<close>, a file whose name does not end in
  \<^verbatim>\<open>.pdf\<close> (in any case) is skipped silently, provided the call of the progress
  callback for that file returns normally (or there is no callback): the loop state is
  unchanged, so the file adds no error and no item and is counted neither as processed
  nor as failed. A non-empty collection of such files then gives \<open>success = true\<close>, all
  counters 0 and no error.
\<close>

theorem importPdfsToItems_skip:
  "(\<not> isPdfName (file_name f) \<and> callProgress onProgress (i + 1) totalFiles = None \<longrightarrow>
      processFile rt onProgress totalFiles st (i, f) = st)
   \<and> (fs \<noteq> [] \<and> (\<forall>f \<in> set fs. \<not> isPdfName (file_name f))
        \<and> (\<forall>k < length fs. callProgress onProgress (k + 1) (length fs) = None) \<longrightarrow>
      importPdfsToItems rt (Some fs) onProgress =
        \<lparr>success = True, itemsCreated = 0, filesProcessed = 0, filesFailed = 0, errors = [],
         result_items = []\<rparr>)"
proof (intro conjI impI)
  assume "\<not> isPdfName (file_name f) \<and> callProgress onProgress (i + 1) totalFiles = None"
  then show "processFile rt onProgress totalFiles st (i, f) = st"
    by (simp add: processFile_skip)
next
  assume a: "fs \<noteq> [] \<and> (\<forall>f \<in> set fs. \<not> isPdfName (file_name f))
        \<and> (\<forall>k < length fs. callProgress onProgress (k + 1) (length fs) = None)"
  have "\<forall>nf \<in> set (zip [0 ..< length fs] fs). \<not> isPdfName (file_name (snd nf)) \<and>
          callProgress onProgress (fst nf + 1) (length fs) = None"
  proof
    fix nf assume nf: "nf \<in> set (zip [0 ..< length fs] fs)"
    obtain k f' where kf: "nf = (k, f')" by (cases nf) auto
    from nf kf have "k \<in> set [0 ..< length fs]" and "f' \<in> set fs"
      by (auto dest: set_zip_leftD set_zip_rightD)
    with a kf show "\<not> isPdfName (file_name (snd nf)) \<and>
          callProgress onProgress (fst nf + 1) (length fs) = None"
      by simp
  qed
  then have "foldl (processFile rt onProgress (length fs)) (emptyResult, 0, 0)
                 (zip [0 ..< length fs] fs) = (emptyResult, 0, 0)"
    by (rule files_skip)
  with a show "importPdfsToItems rt (Some fs) onProgress =
        \<lparr>success = True, itemsCreated = 0, filesProcessed = 0, filesFailed = 0, errors = [],
         result_items = []\<rparr>"
    by (simp add: importPdfsToItems_def emptyResult_def)
qed

lemma sample_import:
  "importPdfsToItems sampleRuntime (Some sampleFiles) None =
     \<lparr>success = True, itemsCreated = 1, filesProcessed = 2, filesFailed = 0,
      errors =
        [''4787-180x240mm-CMYK.pdf (p'' @ [CHR 0xC3, CHR 0xA1] @ ''gina 2): page is damaged'',
         ''logo.PDF (p'' @ [CHR 0xC3, CHR 0xA1] @ ''gina 1): Dimens'' @ [CHR 0xC3, CHR 0xB5] @
           ''es muito grandes (m'' @ [CHR 0xC3, CHR 0xA1] @ ''ximo 500cm)''],
      result_items =
        [\<lparr>item_id = String ''4fzyo82mv'', os = ''4787'',
          clientDescription = ''4787-180x240mm-CMYK - P'' @ [CHR 0xC3, CHR 0xA1] @ ''g 1'',
          colors = ''CMYK'', jobType = String ''Novo'', date = String ''2026-11-03'',
          width = Fin 18, height = Fin 24, games = Fin 4, pricePerCm2 = Fin (798 / 10000),
          observations = ''Dimens'' @ [CHR 0xC3, CHR 0xB5] @ ''es extra'' @ [CHR 0xC3, CHR 0xAD] @
            ''das do nome do arquivo''\<rparr>]\<rparr>"
  by code_simp

theorem importPdfsToItems_success_witness:
  "sampleFiles \<noteq> []
   \<and> success (importPdfsToItems sampleRuntime (Some sampleFiles) None) = True
   \<and> filesFailed (importPdfsToItems sampleRuntime (Some sampleFiles) None) = 0
   \<and> length (errors (importPdfsToItems sampleRuntime (Some sampleFiles) None)) = 2"
  using importPdfsToItems_success [of sampleFiles sampleRuntime None]
  by (simp add: sample_import) (simp add: sampleFiles_def)

lemma skipped_names: "\<forall>f \<in> set skippedFiles. \<not> isPdfName (file_name f)"
  unfolding skippedFiles_def isPdfName_def by code_simp

theorem importPdfsToItems_skip_witness:
  "skippedFiles \<noteq> []
   \<and> list_all (\<lambda>f. \<not> isPdfName (file_name f)) skippedFiles
   \<and> list_all (\<lambda>k. callProgress (Some (\<lambda>current n. None)) (k + 1) (length skippedFiles) = None)
        [0 ..< length skippedFiles]
   \<and> processFile sampleRuntime (Some (\<lambda>current n. None)) 2 (emptyResult, 0, 0)
        (0, \<lparr>file_name = ''notes.txt'', file_content = Inl ''not read''\<rparr>) = (emptyResult, 0, 0)
   \<and> importPdfsToItems sampleRuntime (Some skippedFiles) (Some (\<lambda>current n. None)) =
       \<lparr>success = True, itemsCreated = 0, filesProcessed = 0, filesFailed = 0, errors = [],
        result_items = []\<rparr>"
  using importPdfsToItems_skip [of "\<lparr>file_name = ''notes.txt'', file_content = Inl ''not read''\<rparr>"
      "Some (\<lambda>current n. None)" 0 2 sampleRuntime "(emptyResult, 0, 0)" skippedFiles]
    skipped_names
  by (simp add: callProgress_def list_all_iff) (simp add: skippedFiles_def)

text \<open>
  Claim C10 as stated fails: the progress callback runs inside the \<^verbatim>\<open>try\<close> before the
  name is looked at, so when it throws for a file that is not a PDF, the file is counted
  as failed and its error is recorded.
\<close>

theorem importPdfsToItems_skip_counterexample:
  "\<not> isPdfName ''notes.txt''
   \<and> importPdfsToItems sampleRuntime
       (Some [\<lparr>file_name = ''notes.txt'', file_content = Inl ''not read''\<rparr>])
       (Some (\<lambda>i n. Some ''progress bar is gone'')) =
     \<lparr>success = False, itemsCreated = 0, filesProcessed = 0, filesFailed = 1,
      errors = [''notes.txt: progress bar is gone''], result_items = []\<rparr>"
  unfolding isPdfName_def by code_simp

end
